theory Spec2Isabelle
  imports Main "HOL-Library.Sublist" "HOL-Library.Char_ord" "HOL-Library.List_Lexorder"
    "HOL-Library.Word"
begin

section \<open>nexveil-auth: the client of the licence verification protocol\<close>

text \<open>
  The development embeds the class \<open>NexveilAuth\<close> of the SDK (constructor,
  \<open>validateConfig\<close>, \<open>generateHWID\<close>, \<open>getHWID\<close>, \<open>setHWID\<close>, \<open>verify\<close>,
  \<open>verifyOrThrow\<close>, \<open>getLastVerification\<close>, \<open>isAuthenticated\<close>, \<open>clearCache\<close>).

  Conventions of the embedding:
  \<^item> a JavaScript string is a \<open>string\<close>, a \<open>char\<close> standing for one code unit, so
    that \<open>length\<close> is the \<open>length\<close> property of the string;
  \<^item> values have the types that the declaration file of the package gives them
    (\<open>NexveilConfig\<close>, \<open>VerificationResult\<close>, \<open>VerificationData\<close>, \<open>KeyData\<close>,
    \<open>AppData\<close>); a field that may be absent, \<open>undefined\<close> or \<open>null\<close> is an \<open>option\<close>,
    \<open>None\<close> standing for the absent value; arguments and fields of another type than the
    declared one (a number where a string is declared) are not part of the embedding;
  \<^item> an exception is the message of the \<open>Error\<close> thrown, a result is
    \<open>string + 'a\<close> with \<open>Inl\<close> the message: the handler of \<open>verify\<close> inspects it;
  \<^item> the fields of the instance are a record that every method takes and returns; a call
    of the asynchronous \<open>verify\<close> is taken as a whole, from its start to the settlement of
    its promise, with no other call on the instance in between;
  \<^item> what the class reads from its surroundings (the hash of the crypto library, the
    random generator, the clock, the probes of the operating system, the transport) is a
    record \<open>env\<close> given to each call.
\<close>

subsection \<open>Helpers of the language\<close>

text \<open>Truthiness of a string that may be absent: \<open>undefined\<close>, \<open>null\<close> and the empty
  string are falsy.\<close>

definition truthy :: "string option \<Rightarrow> bool" where
  "truthy v = (case v of None \<Rightarrow> False | Some s \<Rightarrow> s \<noteq> [])"

text \<open>\<open>a || 'literal'\<close> and \<open>a || null\<close> on such values.\<close>

definition or_else :: "string option \<Rightarrow> string \<Rightarrow> string" where
  "or_else a d = (case a of None \<Rightarrow> d | Some s \<Rightarrow> if s \<noteq> [] then s else d)"

definition or_null :: "string option \<Rightarrow> string option" where
  "or_null a = (if truthy a then a else None)"

text \<open>A value appended to a string by \<open>+\<close> or spliced into a template literal: the
  absent value reads \<open>undefined\<close>.\<close>

definition to_str :: "string option \<Rightarrow> string" where
  "to_str v = (case v of None \<Rightarrow> ''undefined'' | Some s \<Rightarrow> s)"

text \<open>\<open>s.includes(t)\<close>: \<open>t\<close> occurs in \<open>s\<close> as a contiguous run.\<close>

definition includes_str :: "string \<Rightarrow> string \<Rightarrow> bool" where
  "includes_str s t = sublist t s"

text \<open>\<open>xs.join(sep)\<close> on an array of strings.\<close>

fun join :: "string \<Rightarrow> string list \<Rightarrow> string" where
  "join sep [] = []"
| "join sep [x] = x"
| "join sep (x # y # ys) = x @ sep @ join sep (y # ys)"

text \<open>A non-negative integer printed in decimal (\<open>toString()\<close> of a number, a number
  in a template literal).\<close>

definition digit :: "nat \<Rightarrow> char" where
  "digit d = ''0123456789'' ! (d mod 10)"

fun show_nat :: "nat \<Rightarrow> string" where
  "show_nat n = (if n < 10 then [digit n] else show_nat (n div 10) @ [digit n])"

declare show_nat.simps [simp del]

text \<open>\<open>buffer.toString('hex')\<close>: two lower-case hexadecimal digits for each byte.\<close>

definition hex_digit :: "nat \<Rightarrow> char" where
  "hex_digit d = ''0123456789abcdef'' ! (d mod 16)"

definition toString_hex :: "8 word list \<Rightarrow> string" where
  "toString_hex bytes = concat (map (\<lambda>b. [hex_digit (unat b div 16), hex_digit (unat b)]) bytes)"

text \<open>\<open>s.split('\n')\<close>, for any separating character.\<close>

fun split_on :: "char \<Rightarrow> string \<Rightarrow> string list" where
  "split_on d [] = [] # []"
| "split_on d (c # cs) =
     (if c = d then [] # split_on d cs
      else (case split_on d cs of
              [] \<Rightarrow> [c] # []
            | x # xs \<Rightarrow> (c # x) # xs))"

text \<open>\<open>s.trim()\<close> removes white space and line terminators at both ends: tab, line feed,
  vertical tab, form feed, carriage return, space and the no-break space.\<close>

definition is_space :: "char \<Rightarrow> bool" where
  "is_space c = (c \<in> set [CHR 0x09, CHR 0x0A, CHR 0x0B, CHR 0x0C, CHR 0x0D, CHR 0x20, CHR 0xA0])"

definition trim :: "string \<Rightarrow> string" where
  "trim s = rev (dropWhile is_space (rev (dropWhile is_space s)))"

subsection \<open>Configuration and instance\<close>

text \<open>\<open>NexveilConfig\<close>: the four required fields may be missing at run time, which
  \<open>validateConfig\<close> checks; the other four are optional.\<close>

record nexveil_config =
  cfg_appName :: "string option"
  cfg_secret1 :: "string option"
  cfg_secret2 :: "string option"
  cfg_secret3 :: "string option"
  cfg_apiUrl :: "string option"
  cfg_autoHWID :: "bool option"
  cfg_customHWID :: "string option"
  cfg_strictSSL :: "bool option"

text \<open>\<open>config[field]\<close> for the field names the validator reads.\<close>

definition config_get :: "nexveil_config \<Rightarrow> string \<Rightarrow> string option" where
  "config_get config field =
     (if field = ''appName'' then cfg_appName config
      else if field = ''secret1'' then cfg_secret1 config
      else if field = ''secret2'' then cfg_secret2 config
      else if field = ''secret3'' then cfg_secret3 config
      else None)"

text \<open>The regular expression \<open>/^.{64}$/s\<close>: with the flag \<open>s\<close> the dot matches any unit,
  line terminators too; \<open>dots n s\<close> consumes \<open>n\<close> units of \<open>s\<close> and returns the rest, the
  anchors ask that the match starts at the beginning and that nothing is left.\<close>

fun dots :: "nat \<Rightarrow> string \<Rightarrow> string option" where
  "dots 0 s = Some s"
| "dots (Suc n) [] = None"
| "dots (Suc n) (c # s) = dots n s"

definition secretRegex_test :: "string option \<Rightarrow> bool" where
  "secretRegex_test secret = (dots 64 (to_str secret) = Some [])"

text \<open>
  \<^verbatim>\<open>
  const required = ['appName', 'secret1', 'secret2', 'secret3'];
  for (const field of required) {
    if (!config[field]) {
      throw new Error(`nexveil: Missing required field: ${field}`);
    }
  }\<close>
\<close>

fun check_required :: "nexveil_config \<Rightarrow> string list \<Rightarrow> string + unit" where
  "check_required config [] = Inr ()"
| "check_required config (field # rest) =
     (if \<not> truthy (config_get config field)
      then Inl (''nexveil: Missing required field: '' @ field)
      else check_required config rest)"

text \<open>
  \<^verbatim>\<open>
  for (let i = 1; i <= 3; i++) {
    const secret = config[`secret${i}`];
    if (!secretRegex.test(secret)) {
      throw new Error(`nexveil: secret${i} must be exactly 64 characters`);
    }
  }\<close>
  The loop runs over \<open>i = 1, 2, 3\<close>, given here as the list of the indices left.
\<close>

fun check_secrets :: "nexveil_config \<Rightarrow> nat list \<Rightarrow> string + unit" where
  "check_secrets config [] = Inr ()"
| "check_secrets config (i # js) =
     (if \<not> secretRegex_test (config_get config (''secret'' @ show_nat i))
      then Inl (''nexveil: secret'' @ show_nat i @ '' must be exactly 64 characters'')
      else check_secrets config js)"

text \<open>\<open>validateConfig(config)\<close>; the argument is \<open>None\<close> when no configuration object is
  passed. The last check reads \<open>typeof config.appName !== 'string' ||
  config.appName.length === 0\<close>; a present \<open>appName\<close> is a string here.\<close>

definition validateConfig :: "nexveil_config option \<Rightarrow> string + unit" where
  "validateConfig cfg =
     (case cfg of
        None \<Rightarrow> Inl ''nexveil: Configuration object is required''
      | Some config \<Rightarrow>
          (case check_required config [''appName'', ''secret1'', ''secret2'', ''secret3''] of
             Inl e \<Rightarrow> Inl e
           | Inr _ \<Rightarrow>
               (case check_secrets config [1, 2, 3] of
                  Inl e \<Rightarrow> Inl e
                | Inr _ \<Rightarrow>
                    (case cfg_appName config of
                       None \<Rightarrow> Inl ''nexveil: appName must be a non-empty string''
                     | Some a \<Rightarrow>
                         if length a = 0
                         then Inl ''nexveil: appName must be a non-empty string''
                         else Inr ()))))"

text \<open>The results of a verification, as the declaration file types them.\<close>

record key_data =
  expiresAt :: "string option"
  activatedAt :: "string option"
  key_note :: "string option"

record app_data =
  version :: "string option"

record verification_data =
  data_key :: key_data
  data_app :: app_data

record verification_result =
  success :: bool
  code :: string
  message :: string
  signature :: "string option"
  data :: "verification_data option"
  isActivated :: bool
  isValid :: bool
  timestamp :: string

text \<open>The fields of an instance; \<open>priv_hwid\<close> is \<open>this._hwid\<close> and
  \<open>priv_lastVerification\<close> is \<open>this._lastVerification\<close>, \<open>None\<close> for \<open>null\<close>.\<close>

record nexveil_auth =
  appName :: string
  secret1 :: string
  secret2 :: string
  secret3 :: string
  apiUrl :: string
  autoHWID :: bool
  customHWID :: "string option"
  strictSSL :: bool
  priv_hwid :: "string option"
  priv_lastVerification :: "verification_result option"

text \<open>
  The constructor. After \<open>validateConfig\<close> the four required fields are present
  (lemma \<open>validateConfig_present\<close> below), so \<open>the\<close> reads them.
  \<^verbatim>\<open>
  this.apiUrl = config.apiUrl || 'https://api.nexveil.net';
  this.autoHWID = config.autoHWID !== false; // default true
  this.customHWID = config.customHWID || null;
  this.strictSSL = config.strictSSL !== false; // default true
  this._hwid = null;
  this._lastVerification = null;\<close>
\<close>

definition NexveilAuth :: "nexveil_config option \<Rightarrow> string + nexveil_auth" where
  "NexveilAuth cfg =
     (case validateConfig cfg of
        Inl e \<Rightarrow> Inl e
      | Inr _ \<Rightarrow>
          (case cfg of
             None \<Rightarrow> Inl ''nexveil: Configuration object is required''
           | Some config \<Rightarrow>
               Inr \<lparr> appName = the (cfg_appName config),
                     secret1 = the (cfg_secret1 config),
                     secret2 = the (cfg_secret2 config),
                     secret3 = the (cfg_secret3 config),
                     apiUrl = or_else (cfg_apiUrl config) ''https://api.nexveil.net'',
                     autoHWID = (cfg_autoHWID config \<noteq> Some False),
                     customHWID = or_null (cfg_customHWID config),
                     strictSSL = (cfg_strictSSL config \<noteq> Some False),
                     priv_hwid = None,
                     priv_lastVerification = None \<rparr>))"

subsection \<open>The surroundings of a call\<close>

text \<open>One entry of \<open>os.networkInterfaces()\<close>: an address of an interface and the MAC
  address of that interface.\<close>

record iface =
  address :: string
  mac :: string

text \<open>The body of a response after \<open>response.json()\<close>: an object whose fields
  \<open>code\<close>, \<open>message\<close>, \<open>signature\<close> and \<open>data\<close> are strings (an object for \<open>data\<close>) or
  absent.\<close>

record response_body =
  body_code :: "string option"
  body_message :: "string option"
  body_signature :: "string option"
  body_data :: "verification_data option"

text \<open>A response of \<open>fetch\<close>: \<open>json\<close> is the outcome of \<open>response.json()\<close>, which throws
  (\<open>Inl\<close>), yields \<open>null\<close> (\<open>Inr None\<close>) or yields an object.\<close>

record http_response =
  ok :: bool
  status :: nat
  json :: "string + response_body option"

datatype agent_option = AgentUnset | AgentNull

record fetch_options =
  fo_method :: string
  fo_headers :: "(string \<times> string) list"
  fo_agent :: agent_option

record fetch_call =
  call_url :: string
  call_options :: fetch_options

text \<open>
  What a call reads from outside the instance:
  \<^item> \<open>sha256\<close>: \<open>crypto.createHash('sha256').update(data).digest('hex')\<close>;
  \<^item> \<open>randomBytes\<close>: \<open>crypto.randomBytes(n)\<close>; \<open>date_now\<close>: \<open>Date.now()\<close>;
    \<open>date_iso\<close>: \<open>new Date().toISOString()\<close>; \<open>encodeURIComponent\<close>;
  \<^item> \<open>os_cpus\<close>: the \<open>model\<close> of each entry of \<open>os.cpus()\<close>; \<open>os_hostname\<close> and
    \<open>os_networkInterfaces\<close> may throw a system error (\<open>Inl\<close>); the interfaces are listed
    in the order in which \<open>for ... in\<close> enumerates them;
  \<^item> \<open>execSync\<close>: the output of a command, or the error of a failed command;
  \<^item> \<open>fetch\<close>: the transport, which throws (\<open>Inl\<close>) or answers.
\<close>

record env =
  sha256 :: "string \<Rightarrow> string"
  randomBytes :: "nat \<Rightarrow> 8 word list"
  date_now :: nat
  date_iso :: string
  encodeURIComponent :: "string \<Rightarrow> string"
  os_cpus :: "string list"
  os_hostname :: "string + string"
  os_platform :: string
  os_arch :: string
  os_networkInterfaces :: "string + (string \<times> iface list) list"
  execSync :: "string \<Rightarrow> string + string"
  fetch :: "string \<Rightarrow> fetch_options \<Rightarrow> string + http_response"

subsection \<open>The hardware fingerprint\<close>

text \<open>
  \<^verbatim>\<open>
  for (const name in interfaces) {
    for (const iface of interfaces[name]) {
      if (iface.mac && iface.mac !== '00:00:00:00:00:00') {
        macAddresses.push(iface.mac);
      }
    }
  }\<close>
  Both loops carry the array \<open>macAddresses\<close> built so far.
\<close>

fun push_macs :: "iface list \<Rightarrow> string list \<Rightarrow> string list" where
  "push_macs [] macAddresses = macAddresses"
| "push_macs (entry # entries) macAddresses =
     push_macs entries
       (if mac entry \<noteq> [] \<and> mac entry \<noteq> ''00:00:00:00:00:00''
        then macAddresses @ [mac entry] else macAddresses)"

fun collect_macs :: "(string \<times> iface list) list \<Rightarrow> string list \<Rightarrow> string list" where
  "collect_macs [] macAddresses = macAddresses"
| "collect_macs ((name, entries) # interfaces) macAddresses =
     collect_macs interfaces (push_macs entries macAddresses)"

text \<open>The commands of the platform-specific lookup. The third one is
  \<^verbatim>\<open>ioreg -d2 -c IOPlatformExpertDevice | awk -F\" '/IOPlatformUUID/{print $(NF-1)}'\<close>.\<close>

definition cmd_win32 :: string where
  "cmd_win32 = ''wmic csproduct get uuid''"

definition cmd_linux :: string where
  "cmd_linux = ''cat /etc/machine-id || cat /var/lib/dbus/machine-id''"

definition cmd_darwin :: string where
  "cmd_darwin = ''ioreg -d2 -c IOPlatformExpertDevice | awk -F'' @ [CHR 0x5C, CHR 0x22, CHR 0x20, CHR 0x27]
     @ ''/IOPlatformUUID/{print $(NF-1)}'' @ [CHR 0x27]"

text \<open>
  The inner \<open>try\<close> block: the identifier pushed, or \<open>None\<close> when nothing is pushed. A
  failed command is caught there, and so is \<open>split('\n')[1].trim()\<close> on an output of a
  single line (the second element is \<open>undefined\<close>); the handler only writes a warning to
  the console. On a platform other than the three named ones nothing is looked up.
\<close>

definition platform_id :: "env \<Rightarrow> string option" where
  "platform_id env =
     (if os_platform env = ''win32'' then
        (case execSync env cmd_win32 of
           Inl err \<Rightarrow> None
         | Inr out \<Rightarrow>
             (case split_on (CHR 0x0A) out of
                first # second # others \<Rightarrow> Some (trim second)
              | _ \<Rightarrow> None))
      else if os_platform env = ''linux'' then
        (case execSync env cmd_linux of
           Inl err \<Rightarrow> None
         | Inr out \<Rightarrow> Some (trim out))
      else if os_platform env = ''darwin'' then
        (case execSync env cmd_darwin of
           Inl err \<Rightarrow> None
         | Inr out \<Rightarrow> Some (trim out))
      else None)"

text \<open>The array \<open>components\<close>, built by the pushes of the outer \<open>try\<close> block in
  their order; \<open>Inl\<close> when a probe throws.\<close>

definition hwid_components :: "env \<Rightarrow> string + string list" where
  "hwid_components env =
     (let components = [];
          components = (case os_cpus env of
                          [] \<Rightarrow> components
                        | model # others \<Rightarrow> components @ [model])
      in case os_hostname env of
           Inl err \<Rightarrow> Inl err
         | Inr hostname \<Rightarrow>
             (let components = components @ [hostname];
                  components = components @ [os_platform env];
                  components = components @ [os_arch env]
              in case os_networkInterfaces env of
                   Inl err \<Rightarrow> Inl err
                 | Inr interfaces \<Rightarrow>
                     (let macAddresses = collect_macs interfaces [];
                          macAddresses = sort macAddresses;
                          components = components @ macAddresses;
                          components = (case platform_id env of
                                          None \<Rightarrow> components
                                        | Some ident \<Rightarrow> components @ [ident])
                      in Inr components)))"

text \<open>\<open>generateHWID()\<close>: the value returned (or the error thrown) and the instance
  after the call.\<close>

definition derive_hwid :: "env \<Rightarrow> nexveil_auth \<Rightarrow> (string + string) \<times> nexveil_auth" where
  "derive_hwid env this =
     (case hwid_components env of
        Inl err \<Rightarrow> (Inl (''Nexveil: Failed to generate HWID: '' @ err), this)
      | Inr components \<Rightarrow>
          (let combined = join ''||'' components;
               hwid = sha256 env combined
           in (Inr hwid, this\<lparr>priv_hwid := Some hwid\<rparr>)))"

definition generateHWID :: "env \<Rightarrow> nexveil_auth \<Rightarrow> (string + string) \<times> nexveil_auth" where
  "generateHWID env this =
     (if truthy (customHWID this) then (Inr (the (customHWID this)), this)
      else if truthy (priv_hwid this) then (Inr (the (priv_hwid this)), this)
      else derive_hwid env this)"

text \<open>\<open>getHWID()\<close>.\<close>

definition getHWID :: "env \<Rightarrow> nexveil_auth \<Rightarrow> (string + string) \<times> nexveil_auth" where
  "getHWID env this =
     (if autoHWID this then generateHWID env this
      else if truthy (customHWID this) then (Inr (the (customHWID this)), this)
      else (Inl ''Nexveil: HWID not set. Enable autoHWID or provide customHWID'', this))"

text \<open>\<open>setHWID(hwid)\<close>, the argument being a string.\<close>

definition setHWID :: "string \<Rightarrow> nexveil_auth \<Rightarrow> string + nexveil_auth" where
  "setHWID hwid this =
     (if hwid = [] then Inl ''Nexveil: HWID must be a non-empty string''
      else Inr (this\<lparr>customHWID := Some hwid, priv_hwid := Some hwid\<rparr>))"

subsection \<open>Verification\<close>

text \<open>
  Steps 1 and 2 of \<open>verify\<close> up to the call of the transport: the client signature,
  the headers, the address and the options of \<open>fetch\<close>.
  \<^verbatim>\<open>
  const clientSignature = this.sha256(
    clientNonce + this.secret1 + key + this.secret2 + clientTime + this.secret3 + clientHWID
  );\<close>
\<close>

definition build_request ::
  "env \<Rightarrow> nexveil_auth \<Rightarrow> string \<Rightarrow> string \<Rightarrow> string \<Rightarrow> string \<Rightarrow> fetch_call" where
  "build_request env this key clientHWID clientNonce clientTime =
     (let clientSignature =
            sha256 env (clientNonce @ secret1 this @ key @ secret2 this @ clientTime
                        @ secret3 this @ clientHWID);
          headers = [(''Content-Type'', ''application/json''),
                     (''clienttime'', clientTime),
                     (''externalsignature'', clientSignature),
                     (''clientnonce'', clientNonce),
                     (''clienthwid'', clientHWID)];
          url = apiUrl this @ ''/wlv1/application/auth?key='' @ encodeURIComponent env key
                @ ''&app_name='' @ encodeURIComponent env (appName this);
          fetchOptions = \<lparr> fo_method = ''GET'', fo_headers = headers, fo_agent = AgentUnset \<rparr>;
          fetchOptions = (if \<not> strictSSL this \<and> includes_str url ''localhost''
                          then fetchOptions\<lparr>fo_agent := AgentNull\<rparr> else fetchOptions)
      in \<lparr> call_url = url, call_options = fetchOptions \<rparr>)"

text \<open>
  Steps 3 and 4: the check of the server signature and the result.
  \<^verbatim>\<open>
  if (data.signature) {
    const expectedServerSignature = this.sha256(clientNonce + this.secret3 + data.code);
    if (data.signature !== expectedServerSignature) {
      throw new Error('nexveil: Server signature verification failed - response may be tampered');
    }
  }\<close>
\<close>

definition check_signature :: "env \<Rightarrow> nexveil_auth \<Rightarrow> string \<Rightarrow> response_body \<Rightarrow> string + unit" where
  "check_signature env this clientNonce body =
     (if truthy (body_signature body) then
        (let expectedServerSignature =
               sha256 env (clientNonce @ secret3 this @ to_str (body_code body))
         in if body_signature body \<noteq> Some expectedServerSignature
            then Inl ''nexveil: Server signature verification failed - response may be tampered''
            else Inr ())
      else Inr ())"

definition process_result ::
  "env \<Rightarrow> nexveil_auth \<Rightarrow> response_body \<Rightarrow> verification_result \<times> nexveil_auth" where
  "process_result env this body =
     (let result = \<lparr> success = False,
                      code = or_else (body_code body) ''UNKNOWN_ERROR'',
                      message = or_else (body_message body) ''Unknown error occurred'',
                      signature = or_null (body_signature body),
                      data = body_data body,
                      isActivated = (body_code body = Some ''KEY_ACTIVATED''),
                      isValid = (body_code body = Some ''KEY_VALID''
                                 \<or> body_code body = Some ''KEY_ACTIVATED''),
                      timestamp = date_iso env \<rparr>
      in if isValid result
         then (let result = result\<lparr>success := True\<rparr>
               in (result, this\<lparr>priv_lastVerification := Some result\<rparr>))
         else (result, this))"

text \<open>Reading a property of \<open>null\<close> throws a \<open>TypeError\<close> with this message.\<close>

definition null_body_message :: string where
  "null_body_message =
     ''Cannot read properties of null (reading '' @ [CHR 0x27] @ ''signature'' @ [CHR 0x27] @ '')''"

text \<open>
  The \<open>try\<close> block of \<open>verify\<close>. The third component of the value lists the calls of
  \<open>fetch\<close> that were made.
\<close>

definition verify_try ::
  "env \<Rightarrow> nexveil_auth \<Rightarrow> string
     \<Rightarrow> (string + verification_result) \<times> nexveil_auth \<times> fetch_call list" where
  "verify_try env this key =
     (case getHWID env this of
        (Inl err, this1) \<Rightarrow> (Inl err, this1, [])
      | (Inr clientHWID, this1) \<Rightarrow>
          (let clientNonce = toString_hex (randomBytes env 32);
               clientTime = show_nat (date_now env);
               request = build_request env this1 key clientHWID clientNonce clientTime
           in case fetch env (call_url request) (call_options request) of
                Inl err \<Rightarrow> (Inl err, this1, [request])
              | Inr response \<Rightarrow>
                  if \<not> ok response \<and> status response \<ge> 500
                  then (Inl (''nexveil: Server error ('' @ show_nat (status response) @ '')''),
                        this1, [request])
                  else
                    (case json response of
                       Inl err \<Rightarrow> (Inl err, this1, [request])
                     | Inr None \<Rightarrow> (Inl null_body_message, this1, [request])
                     | Inr (Some body) \<Rightarrow>
                         (case check_signature env this1 clientNonce body of
                            Inl err \<Rightarrow> (Inl err, this1, [request])
                          | Inr _ \<Rightarrow>
                              (case process_result env this1 body of
                                 (result, this2) \<Rightarrow> (Inr result, this2, [request]))))))"

text \<open>
  \<open>verify(key)\<close>, the key being a string.
  \<^verbatim>\<open>
  } catch (error) {
    if (error.message.includes('nexveil:')) {
      throw error;
    }
    throw new Error(`nexveil: Verification failed - ${error.message}`);
  }\<close>
\<close>

definition verify ::
  "env \<Rightarrow> nexveil_auth \<Rightarrow> string
     \<Rightarrow> (string + verification_result) \<times> nexveil_auth \<times> fetch_call list" where
  "verify env this key =
     (if key = [] then (Inl ''Nexveil: License key must be a non-empty string'', this, [])
      else
        (case verify_try env this key of
           (Inl err, this1, sent) \<Rightarrow>
             if includes_str err ''nexveil:'' then (Inl err, this1, sent)
             else (Inl (''nexveil: Verification failed - '' @ err), this1, sent)
         | (Inr result, this1, sent) \<Rightarrow> (Inr result, this1, sent)))"

text \<open>\<open>verifyOrThrow(key)\<close>.\<close>

definition verifyOrThrow ::
  "env \<Rightarrow> nexveil_auth \<Rightarrow> string
     \<Rightarrow> (string + verification_result) \<times> nexveil_auth \<times> fetch_call list" where
  "verifyOrThrow env this key =
     (case verify env this key of
        (Inl err, this1, sent) \<Rightarrow> (Inl err, this1, sent)
      | (Inr result, this1, sent) \<Rightarrow>
          if \<not> success result
          then (Inl (''nexveil: '' @ code result @ '' - '' @ message result), this1, sent)
          else (Inr result, this1, sent))"

subsection \<open>The cache of the last verification\<close>

definition getLastVerification :: "nexveil_auth \<Rightarrow> verification_result option" where
  "getLastVerification this = priv_lastVerification this"

text \<open>\<open>isAuthenticated()\<close> returns \<open>this._lastVerification && this._lastVerification.success\<close>:
  the left operand itself when it is \<open>null\<close>, the flag otherwise.\<close>

datatype js_value = JNull | JBool bool

definition isAuthenticated :: "nexveil_auth \<Rightarrow> js_value" where
  "isAuthenticated this =
     (case priv_lastVerification this of
        None \<Rightarrow> JNull
      | Some result \<Rightarrow> JBool (success result))"

definition clearCache :: "nexveil_auth \<Rightarrow> nexveil_auth" where
  "clearCache this = this\<lparr>priv_lastVerification := None\<rparr>"

subsection \<open>Sequences of calls on an instance\<close>

text \<open>A call of a method other than \<open>setHWID\<close>, with the surroundings in which it runs,
  and the instance it leaves behind, whether it returns or throws.\<close>

datatype method_call =
    Call_generateHWID env
  | Call_getHWID env
  | Call_verify env string
  | Call_verifyOrThrow env string
  | Call_getLastVerification
  | Call_isAuthenticated
  | Call_clearCache

fun after_call :: "nexveil_auth \<Rightarrow> method_call \<Rightarrow> nexveil_auth" where
  "after_call this (Call_generateHWID env) = snd (generateHWID env this)"
| "after_call this (Call_getHWID env) = snd (getHWID env this)"
| "after_call this (Call_verify env key) = fst (snd (verify env this key))"
| "after_call this (Call_verifyOrThrow env key) = fst (snd (verifyOrThrow env this key))"
| "after_call this Call_getLastVerification = this"
| "after_call this Call_isAuthenticated = this"
| "after_call this Call_clearCache = clearCache this"

definition after_calls :: "nexveil_auth \<Rightarrow> method_call list \<Rightarrow> nexveil_auth" where
  "after_calls this calls = foldl after_call this calls"

subsection \<open>The fingerprint as the specification words it\<close>

text \<open>The specification asks for the sorted \<^emph>\<open>set\<close> of the MAC addresses: every address
  once. \<open>spec_hwid_components\<close> follows these words, for surroundings whose probes answer;
  it is compared with \<open>hwid_components\<close> below.\<close>

definition spec_hwid_components :: "env \<Rightarrow> string \<Rightarrow> (string \<times> iface list) list \<Rightarrow> string list" where
  "spec_hwid_components env hostname interfaces =
     (case os_cpus env of [] \<Rightarrow> [] | model # others \<Rightarrow> [model])
     @ [hostname, os_platform env, os_arch env]
     @ sort (remdups (filter (\<lambda>m. m \<noteq> [] \<and> m \<noteq> ''00:00:00:00:00:00'')
                         (map mac (concat (map snd interfaces)))))
     @ (case platform_id env of None \<Rightarrow> [] | Some ident \<Rightarrow> [ident])"

subsection \<open>Concrete instances and surroundings\<close>

text \<open>In the examples a tagged copy of the input stands for the digest: it is never
  empty and it differs on different inputs, which is all the examples use.\<close>

definition tag_hash :: "string \<Rightarrow> string" where
  "tag_hash s = ''H('' @ s @ '')''"

definition secret_a :: string where
  "secret_a = ''aaaaaaaaaaaaaaaaaaaaaaaaaaaaaaaaaaaaaaaaaaaaaaaaaaaaaaaaaaaaaaaa''"

definition secret_b :: string where
  "secret_b = ''bbbbbbbbbbbbbbbbbbbbbbbbbbbbbbbbbbbbbbbbbbbbbbbbbbbbbbbbbbbbbbbb''"

definition secret_c :: string where
  "secret_c = ''!#$%&()*+,-./:;<=>?[]^_{|}~ 0123456789 ABCDEFGHIJ abcdefghij xyz''"

definition example_config :: nexveil_config where
  "example_config =
     \<lparr> cfg_appName = Some ''Test'', cfg_secret1 = Some secret_a, cfg_secret2 = Some secret_b,
       cfg_secret3 = Some secret_c, cfg_apiUrl = None, cfg_autoHWID = None,
       cfg_customHWID = None, cfg_strictSSL = None \<rparr>"

definition example_auth :: nexveil_auth where
  "example_auth =
     \<lparr> appName = ''Test'', secret1 = secret_a, secret2 = secret_b, secret3 = secret_c,
       apiUrl = ''https://api.nexveil.net'', autoHWID = True, customHWID = None,
       strictSSL = True, priv_hwid = None, priv_lastVerification = None \<rparr>"

text \<open>A machine with one loopback entry and one card that has two addresses.\<close>

definition example_interfaces :: "(string \<times> iface list) list" where
  "example_interfaces =
     [(''lo'', [\<lparr> address = ''127.0.0.1'', mac = ''00:00:00:00:00:00'' \<rparr>]),
      (''eth0'', [\<lparr> address = ''10.0.0.2'', mac = ''52:54:00:12:34:56'' \<rparr>,
                  \<lparr> address = ''fe80::1'', mac = ''52:54:00:12:34:56'' \<rparr>])]"

definition example_nonce :: string where
  "example_nonce = ''0a0a0a0a0a0a0a0a0a0a0a0a0a0a0a0a0a0a0a0a0a0a0a0a0a0a0a0a0a0a0a0a''"

text \<open>Surroundings whose transport answers every request with the given response.\<close>

definition example_env :: "http_response \<Rightarrow> env" where
  "example_env response =
     \<lparr> sha256 = tag_hash,
       randomBytes = (\<lambda>n. replicate n 0x0A),
       date_now = 1700000000000,
       date_iso = ''2023-11-14T22:13:20.000Z'',
       encodeURIComponent = (\<lambda>s. s),
       os_cpus = [''cpu0''],
       os_hostname = Inr ''host'',
       os_platform = ''linux'',
       os_arch = ''x64'',
       os_networkInterfaces = Inr example_interfaces,
       execSync = (\<lambda>cmd. if cmd = cmd_linux then Inr (''4c4c4544'' @ [CHR 0x0A])
                           else Inl ''Command failed''),
       fetch = (\<lambda>url options. Inr response) \<rparr>"

definition answer :: "string \<Rightarrow> string option \<Rightarrow> http_response" where
  "answer c sig =
     \<lparr> ok = True, status = 200,
       json = Inr (Some \<lparr> body_code = Some c, body_message = Some ''Success'',
                           body_signature = sig, body_data = None \<rparr>) \<rparr>"

text \<open>A machine whose transport is not used, and the fingerprint derived on it.\<close>

definition example_machine :: env where
  "example_machine = example_env (answer ''KEY_VALID'' None)"

definition example_hwid :: string where
  "example_hwid = tag_hash ''cpu0||host||linux||x64||52:54:00:12:34:56||52:54:00:12:34:56||4c4c4544''"


text \<open>The results and the request of the example calls, and an instance that holds a
  cached result.\<close>

definition valid_result :: "string option \<Rightarrow> verification_result" where
  "valid_result sig =
     \<lparr> success = True, code = ''KEY_VALID'', message = ''Success'', signature = sig,
       data = None, isActivated = False, isValid = True,
       timestamp = ''2023-11-14T22:13:20.000Z'' \<rparr>"

definition example_request :: fetch_call where
  "example_request =
     \<lparr> call_url = ''https://api.nexveil.net/wlv1/application/auth?key=ABC&app_name=Test'',
       call_options =
         \<lparr> fo_method = ''GET'',
           fo_headers =
             [(''Content-Type'', ''application/json''),
              (''clienttime'', ''1700000000000''),
              (''externalsignature'',
               tag_hash (example_nonce @ secret_a @ ''ABC'' @ secret_b @ ''1700000000000''
                         @ secret_c @ example_hwid)),
              (''clientnonce'', example_nonce),
              (''clienthwid'', example_hwid)],
           fo_agent = AgentUnset \<rparr> \<rparr>"

definition cached_auth :: nexveil_auth where
  "cached_auth = example_auth\<lparr>priv_hwid := Some example_hwid,
                               priv_lastVerification := Some (valid_result None)\<rparr>"

definition expired_result :: verification_result where
  "expired_result =
     \<lparr> success = False, code = ''KEY_EXPIRED'', message = ''Success'', signature = None,
       data = None, isActivated = False, isValid = False,
       timestamp = ''2023-11-14T22:13:20.000Z'' \<rparr>"

section \<open>Properties\<close>

subsection \<open>Configuration\<close>

lemma dots_drop: "dots n s = (if n \<le> length s then Some (drop n s) else None)"
  by (induction n s rule: dots.induct) auto

lemma secretRegex_test_length: "secretRegex_test (Some s) \<longleftrightarrow> length s = 64"
  by (auto simp: secretRegex_test_def to_str_def dots_drop)

lemma show_nat_digits:
  "show_nat (Suc 0) = ''1''" "show_nat 2 = ''2''" "show_nat 3 = ''3''"
  by (simp_all add: show_nat.simps digit_def)

lemma config_get_simps:
  "config_get c ''appName'' = cfg_appName c"
  "config_get c ''secret1'' = cfg_secret1 c"
  "config_get c ''secret2'' = cfg_secret2 c"
  "config_get c ''secret3'' = cfg_secret3 c"
  by (simp_all add: config_get_def)

lemma truthy_Some: "truthy v \<longleftrightarrow> (\<exists>s. v = Some s \<and> s \<noteq> [])"
  by (cases v) (auto simp: truthy_def)

lemma validateConfig_Some:
  "validateConfig (Some c) =
     (if \<not> truthy (cfg_appName c) then Inl ''nexveil: Missing required field: appName''
      else if \<not> truthy (cfg_secret1 c) then Inl ''nexveil: Missing required field: secret1''
      else if \<not> truthy (cfg_secret2 c) then Inl ''nexveil: Missing required field: secret2''
      else if \<not> truthy (cfg_secret3 c) then Inl ''nexveil: Missing required field: secret3''
      else if length (the (cfg_secret1 c)) \<noteq> 64 then Inl ''nexveil: secret1 must be exactly 64 characters''
      else if length (the (cfg_secret2 c)) \<noteq> 64 then Inl ''nexveil: secret2 must be exactly 64 characters''
      else if length (the (cfg_secret3 c)) \<noteq> 64 then Inl ''nexveil: secret3 must be exactly 64 characters''
      else Inr ())"
  by (auto simp: validateConfig_def config_get_simps show_nat_digits secretRegex_test_length truthy_Some)


lemma validateConfig_present:
  assumes "validateConfig (Some c) = Inr ()"
  shows "\<exists>a s1 s2 s3. cfg_appName c = Some a \<and> a \<noteq> []
           \<and> cfg_secret1 c = Some s1 \<and> length s1 = 64
           \<and> cfg_secret2 c = Some s2 \<and> length s2 = 64
           \<and> cfg_secret3 c = Some s3 \<and> length s3 = 64"
  using assms by (auto simp: validateConfig_Some truthy_Some split: if_splits)

lemma NexveilAuth_validate: "NexveilAuth (Some c) =
  (case validateConfig (Some c) of Inl e \<Rightarrow> Inl e
   | Inr _ \<Rightarrow> Inr \<lparr> appName = the (cfg_appName c),
                     secret1 = the (cfg_secret1 c),
                     secret2 = the (cfg_secret2 c),
                     secret3 = the (cfg_secret3 c),
                     apiUrl = or_else (cfg_apiUrl c) ''https://api.nexveil.net'',
                     autoHWID = (cfg_autoHWID c \<noteq> Some False),
                     customHWID = or_null (cfg_customHWID c),
                     strictSSL = (cfg_strictSSL c \<noteq> Some False),
                     priv_hwid = None,
                     priv_lastVerification = None \<rparr>)"
  by (simp add: NexveilAuth_def split: sum.splits)

text \<open>
  Claim C5. Construction fails with a configuration error that names the offending field
  when the configuration is absent, when \<open>appName\<close> or one of the three secrets is missing
  or empty (the first such field is named), and when a secret does not have exactly 64
  characters (the first such secret is named); with four present fields and three secrets of
  64 characters each, whatever the characters, the instance is built. In particular the
  lengths 63 and 65 are rejected.
\<close>

theorem construction_checks_configuration:
  "NexveilAuth None = Inl ''nexveil: Configuration object is required''
   \<and> (\<not> truthy (cfg_appName c) \<longrightarrow>
        NexveilAuth (Some c) = Inl ''nexveil: Missing required field: appName'')
   \<and> (truthy (cfg_appName c) \<and> \<not> truthy (cfg_secret1 c) \<longrightarrow>
        NexveilAuth (Some c) = Inl ''nexveil: Missing required field: secret1'')
   \<and> (truthy (cfg_appName c) \<and> truthy (cfg_secret1 c) \<and> \<not> truthy (cfg_secret2 c) \<longrightarrow>
        NexveilAuth (Some c) = Inl ''nexveil: Missing required field: secret2'')
   \<and> (truthy (cfg_appName c) \<and> truthy (cfg_secret1 c) \<and> truthy (cfg_secret2 c)
        \<and> \<not> truthy (cfg_secret3 c) \<longrightarrow>
        NexveilAuth (Some c) = Inl ''nexveil: Missing required field: secret3'')
   \<and> (cfg_appName c = Some a \<and> a \<noteq> [] \<and> cfg_secret1 c = Some s1 \<and> s1 \<noteq> []
        \<and> cfg_secret2 c = Some s2 \<and> s2 \<noteq> [] \<and> cfg_secret3 c = Some s3 \<and> s3 \<noteq> [] \<longrightarrow>
          (length s1 \<noteq> 64 \<longrightarrow>
             NexveilAuth (Some c) = Inl ''nexveil: secret1 must be exactly 64 characters'')
        \<and> (length s1 = 64 \<and> length s2 \<noteq> 64 \<longrightarrow>
             NexveilAuth (Some c) = Inl ''nexveil: secret2 must be exactly 64 characters'')
        \<and> (length s1 = 64 \<and> length s2 = 64 \<and> length s3 \<noteq> 64 \<longrightarrow>
             NexveilAuth (Some c) = Inl ''nexveil: secret3 must be exactly 64 characters'')
        \<and> (length s1 = 64 \<and> length s2 = 64 \<and> length s3 = 64 \<longrightarrow>
             (\<exists>this. NexveilAuth (Some c) = Inr this \<and> appName this = a
                     \<and> secret1 this = s1 \<and> secret2 this = s2 \<and> secret3 this = s3)))"
proof -
  have absent: "NexveilAuth None = Inl ''nexveil: Configuration object is required''"
    by (simp add: NexveilAuth_def validateConfig_def)
  have present: "truthy (cfg_appName c) \<and> truthy (cfg_secret1 c) \<and> truthy (cfg_secret2 c)
      \<and> truthy (cfg_secret3 c)"
    if "cfg_appName c = Some a \<and> a \<noteq> [] \<and> cfg_secret1 c = Some s1 \<and> s1 \<noteq> []
        \<and> cfg_secret2 c = Some s2 \<and> s2 \<noteq> [] \<and> cfg_secret3 c = Some s3 \<and> s3 \<noteq> []"
    using that by (simp add: truthy_def)
  show ?thesis
    using absent present
    by (auto simp: NexveilAuth_validate validateConfig_Some)
qed

lemma secret_lengths:
  "length secret_a = 64" "length secret_b = 64" "length secret_c = 64"
  by (simp_all add: secret_a_def secret_b_def secret_c_def)

lemma example_auth_built: "NexveilAuth (Some example_config) = Inr example_auth"
proof -
  have "secret_a \<noteq> []" "secret_b \<noteq> []" "secret_c \<noteq> []"
    using secret_lengths by auto
  then show ?thesis
    by (simp add: NexveilAuth_validate validateConfig_Some example_config_def example_auth_def
        truthy_def or_else_def or_null_def secret_lengths)
qed

theorem construction_checks_configuration_witness:
  "(\<exists>this. NexveilAuth (Some example_config) = Inr this \<and> appName this = ''Test''
       \<and> secret1 this = secret_a \<and> secret2 this = secret_b \<and> secret3 this = secret_c)
   \<and> NexveilAuth (Some (example_config\<lparr>cfg_secret1 := Some (replicate 63 (CHR ''a''))\<rparr>))
       = Inl ''nexveil: secret1 must be exactly 64 characters''
   \<and> NexveilAuth (Some (example_config\<lparr>cfg_secret3 := Some (replicate 65 (CHR ''#''))\<rparr>))
       = Inl ''nexveil: secret3 must be exactly 64 characters''
   \<and> NexveilAuth (Some (example_config\<lparr>cfg_secret2 := None\<rparr>))
       = Inl ''nexveil: Missing required field: secret2''
   \<and> NexveilAuth (Some (example_config\<lparr>cfg_appName := Some []\<rparr>))
       = Inl ''nexveil: Missing required field: appName''"
proof -
  note len = secret_lengths
  have ne: "secret_a \<noteq> []" "secret_b \<noteq> []" "secret_c \<noteq> []"
    using len by auto
  note ok = construction_checks_configuration
    [of example_config "''Test''" secret_a secret_b secret_c]
  note short = construction_checks_configuration
    [of "example_config\<lparr>cfg_secret1 := Some (replicate 63 (CHR ''a''))\<rparr>" "''Test''"
        "replicate 63 (CHR ''a'')" secret_b secret_c]
  note long = construction_checks_configuration
    [of "example_config\<lparr>cfg_secret3 := Some (replicate 65 (CHR ''#''))\<rparr>" "''Test''"
        secret_a secret_b "replicate 65 (CHR ''#'')"]
  note missing = construction_checks_configuration
    [of "example_config\<lparr>cfg_secret2 := None\<rparr>"]
  note empty = construction_checks_configuration
    [of "example_config\<lparr>cfg_appName := Some []\<rparr>"]
  have 1: "\<exists>this. NexveilAuth (Some example_config) = Inr this \<and> appName this = ''Test''
       \<and> secret1 this = secret_a \<and> secret2 this = secret_b \<and> secret3 this = secret_c"
    using ok len ne by (simp add: example_config_def)
  have 2: "NexveilAuth (Some (example_config\<lparr>cfg_secret1 := Some (replicate 63 (CHR ''a''))\<rparr>))
       = Inl ''nexveil: secret1 must be exactly 64 characters''"
    using short len ne by (simp add: example_config_def)
  have 3: "NexveilAuth (Some (example_config\<lparr>cfg_secret3 := Some (replicate 65 (CHR ''#''))\<rparr>))
       = Inl ''nexveil: secret3 must be exactly 64 characters''"
    using long len ne by (simp add: example_config_def)
  have 4: "NexveilAuth (Some (example_config\<lparr>cfg_secret2 := None\<rparr>))
       = Inl ''nexveil: Missing required field: secret2''"
    using missing ne by (simp add: example_config_def truthy_def)
  have 5: "NexveilAuth (Some (example_config\<lparr>cfg_appName := Some []\<rparr>))
       = Inl ''nexveil: Missing required field: appName''"
    using empty by (simp add: example_config_def truthy_def)
  show ?thesis using 1 2 3 4 5 by simp
qed


subsection \<open>Fingerprint: auxiliary facts\<close>

lemma push_macs_filter:
  "push_macs entries acc =
     acc @ filter (\<lambda>m. m \<noteq> [] \<and> m \<noteq> ''00:00:00:00:00:00'') (map mac entries)"
  by (induction entries arbitrary: acc) auto

lemma collect_macs_filter:
  "collect_macs interfaces acc =
     acc @ filter (\<lambda>m. m \<noteq> [] \<and> m \<noteq> ''00:00:00:00:00:00'')
             (map mac (concat (map snd interfaces)))"
  by (induction interfaces arbitrary: acc) (auto simp: push_macs_filter)

lemma hwid_components_closed:
  assumes "os_hostname env = Inr hostname" and "os_networkInterfaces env = Inr interfaces"
  shows "hwid_components env =
     Inr ((case os_cpus env of [] \<Rightarrow> [] | model # others \<Rightarrow> [model])
          @ [hostname, os_platform env, os_arch env]
          @ sort (filter (\<lambda>m. m \<noteq> [] \<and> m \<noteq> ''00:00:00:00:00:00'')
                    (map mac (concat (map snd interfaces))))
          @ (case platform_id env of None \<Rightarrow> [] | Some ident \<Rightarrow> [ident]))"
  using assms
  by (simp add: hwid_components_def collect_macs_filter split: list.splits option.splits)

lemma generateHWID_custom:
  "customHWID this = Some x \<Longrightarrow> x \<noteq> [] \<Longrightarrow> generateHWID env this = (Inr x, this)"
  by (simp add: generateHWID_def truthy_def)

lemma generateHWID_cached:
  "\<not> truthy (customHWID this) \<Longrightarrow> priv_hwid this = Some h \<Longrightarrow> h \<noteq> []
     \<Longrightarrow> generateHWID env this = (Inr h, this)"
  by (simp add: generateHWID_def truthy_def)

lemma generateHWID_fresh:
  "\<not> truthy (customHWID this) \<Longrightarrow> \<not> truthy (priv_hwid this) \<Longrightarrow> hwid_components env = Inr cs
     \<Longrightarrow> generateHWID env this =
           (Inr (sha256 env (join ''||'' cs)), this\<lparr>priv_hwid := Some (sha256 env (join ''||'' cs))\<rparr>)"
  by (simp add: generateHWID_def derive_hwid_def Let_def)

lemma generateHWID_failed:
  "\<not> truthy (customHWID this) \<Longrightarrow> \<not> truthy (priv_hwid this) \<Longrightarrow> hwid_components env = Inl err
     \<Longrightarrow> generateHWID env this = (Inl (''Nexveil: Failed to generate HWID: '' @ err), this)"
  by (simp add: generateHWID_def derive_hwid_def)

text \<open>A call of \<open>generateHWID\<close> or \<open>getHWID\<close> changes the memoized fingerprint at most.\<close>

lemma generateHWID_instance:
  "snd (generateHWID env this) = this\<lparr>priv_hwid := priv_hwid (snd (generateHWID env this))\<rparr>"
  by (simp add: generateHWID_def derive_hwid_def Let_def split: sum.splits)

lemma getHWID_instance:
  "snd (getHWID env this) = this\<lparr>priv_hwid := priv_hwid (snd (getHWID env this))\<rparr>"
  using generateHWID_instance [of env this] by (simp add: getHWID_def)

lemma getHWID_custom:
  "customHWID this = Some x \<Longrightarrow> x \<noteq> [] \<Longrightarrow> getHWID env this = (Inr x, this)"
  by (simp add: getHWID_def generateHWID_custom truthy_def)


lemma getHWID_auto:
  "autoHWID this \<Longrightarrow> getHWID env this = generateHWID env this"
  by (simp add: getHWID_def)

lemma getHWID_unset:
  "\<not> truthy (customHWID this) \<Longrightarrow> \<not> autoHWID this \<Longrightarrow>
     getHWID env this = (Inl ''Nexveil: HWID not set. Enable autoHWID or provide customHWID'', this)"
  by (simp add: getHWID_def)

lemma setHWID_custom:
  "setHWID x this = Inr this' \<Longrightarrow> customHWID this' = Some x \<and> x \<noteq> []"
  by (auto simp: setHWID_def split: if_splits)

lemma NexveilAuth_custom:
  "NexveilAuth (Some c) = Inr this \<Longrightarrow> cfg_customHWID c = Some x \<Longrightarrow> x \<noteq> []
     \<Longrightarrow> customHWID this = Some x"
  by (auto simp: NexveilAuth_validate or_null_def truthy_def split: sum.splits)

text \<open>What \<open>verify\<close> and \<open>verifyOrThrow\<close> may change: the memoized fingerprint and the
  cached result, nothing else.\<close>

lemma process_result_instance:
  "snd (process_result env this body) = this
   \<or> snd (process_result env this body) =
       this\<lparr>priv_lastVerification := Some (fst (process_result env this body))\<rparr>"
  by (simp add: process_result_def Let_def)

lemma getHWID_customHWID: "customHWID (snd (getHWID env this)) = customHWID this"
proof -
  have "customHWID (this\<lparr>priv_hwid := priv_hwid (snd (getHWID env this))\<rparr>) = customHWID this"
    by simp
  then show ?thesis using getHWID_instance [of env this] by simp
qed

subsection \<open>Verification: auxiliary facts\<close>

text \<open>The outcomes of the \<open>try\<close> block of \<open>verify\<close>: the fingerprint is not available; a
  request is sent and the block throws; a request is sent, the answer passes the check of
  the signature and the block returns the result of step 4.\<close>

lemma verify_try_cases [case_names no_hwid thrown returned]:
  obtains
    err this1 where "getHWID env this = (Inl err, this1)"
      and "verify_try env this key = (Inl err, this1, [])"
  | hw this1 err where "getHWID env this = (Inr hw, this1)"
      and "verify_try env this key =
             (Inl err, this1,
              [build_request env this1 key hw (toString_hex (randomBytes env 32))
                 (show_nat (date_now env))])"
  | hw this1 response body where "getHWID env this = (Inr hw, this1)"
      and "fetch env
             (call_url (build_request env this1 key hw (toString_hex (randomBytes env 32))
                          (show_nat (date_now env))))
             (call_options (build_request env this1 key hw (toString_hex (randomBytes env 32))
                          (show_nat (date_now env)))) = Inr response"
      and "\<not> (\<not> ok response \<and> 500 \<le> status response)"
      and "json response = Inr (Some body)"
      and "check_signature env this1 (toString_hex (randomBytes env 32)) body = Inr ()"
      and "verify_try env this key =
             (Inr (fst (process_result env this1 body)), snd (process_result env this1 body),
              [build_request env this1 key hw (toString_hex (randomBytes env 32))
                 (show_nat (date_now env))])"
proof (cases "getHWID env this")
  case (Pair r this1)
  show thesis
  proof (cases r)
    case (Inl err)
    with Pair have "verify_try env this key = (Inl err, this1, [])"
      by (simp add: verify_try_def)
    with Pair Inl show thesis using that(1) by blast
  next
    case (Inr hw)
    let ?req = "build_request env this1 key hw (toString_hex (randomBytes env 32))
                  (show_nat (date_now env))"
    note g = Pair [unfolded Inr]
    show thesis
    proof (cases "fetch env (call_url ?req) (call_options ?req)")
      case (Inl err)
      with g have "verify_try env this key = (Inl err, this1, [?req])"
        by (simp add: verify_try_def Let_def)
      with g show thesis using that(2) by blast
    next
      case response: (Inr response)
      show thesis
      proof (cases "\<not> ok response \<and> 500 \<le> status response")
        case True
        with g response have "verify_try env this key =
            (Inl (''nexveil: Server error ('' @ show_nat (status response) @ '')''), this1, [?req])"
          by (simp add: verify_try_def Let_def)
        with g show thesis using that(2) by blast
      next
        case live: False
        show thesis
        proof (cases "json response")
          case (Inl err)
          with g response live have "verify_try env this key = (Inl err, this1, [?req])"
            by (auto simp: verify_try_def Let_def)
          with g show thesis using that(2) by blast
        next
          case parsed: (Inr b)
          show thesis
          proof (cases b)
            case None
            with g response live parsed
            have "verify_try env this key = (Inl null_body_message, this1, [?req])"
              by (auto simp: verify_try_def Let_def)
            with g show thesis using that(2) by blast
          next
            case (Some body)
            show thesis
            proof (cases "check_signature env this1 (toString_hex (randomBytes env 32)) body")
              case (Inl err)
              with g response live parsed Some
              have "verify_try env this key = (Inl err, this1, [?req])"
                by (auto simp: verify_try_def Let_def)
              with g show thesis using that(2) by blast
            next
              case (Inr u)
              with g response live parsed Some
              have "verify_try env this key =
                  (Inr (fst (process_result env this1 body)),
                   snd (process_result env this1 body), [?req])"
                by (auto simp: verify_try_def Let_def split: prod.splits)
              moreover have "json response = Inr (Some body)"
                using parsed Some by simp
              moreover have "check_signature env this1 (toString_hex (randomBytes env 32)) body
                  = Inr ()"
                using Inr by simp
              ultimately show thesis
                using that(3) [of hw this1 response body] g response live by blast
            qed
          qed
        qed
      qed
    qed
  qed
qed


text \<open>The outcomes of \<open>verify\<close>, the handler included.\<close>

lemma verify_cases [case_names empty_key no_hwid thrown returned]:
  obtains
    "key = []"
      and "verify env this key = (Inl ''Nexveil: License key must be a non-empty string'', this, [])"
  | err this1 msg where "key \<noteq> []" and "getHWID env this = (Inl err, this1)"
      and "verify env this key = (Inl msg, this1, [])"
  | hw this1 msg where "key \<noteq> []" and "getHWID env this = (Inr hw, this1)"
      and "verify env this key =
             (Inl msg, this1,
              [build_request env this1 key hw (toString_hex (randomBytes env 32))
                 (show_nat (date_now env))])"
  | hw this1 response body where "key \<noteq> []" and "getHWID env this = (Inr hw, this1)"
      and "fetch env
             (call_url (build_request env this1 key hw (toString_hex (randomBytes env 32))
                          (show_nat (date_now env))))
             (call_options (build_request env this1 key hw (toString_hex (randomBytes env 32))
                          (show_nat (date_now env)))) = Inr response"
      and "\<not> (\<not> ok response \<and> 500 \<le> status response)"
      and "json response = Inr (Some body)"
      and "check_signature env this1 (toString_hex (randomBytes env 32)) body = Inr ()"
      and "verify env this key =
             (Inr (fst (process_result env this1 body)), snd (process_result env this1 body),
              [build_request env this1 key hw (toString_hex (randomBytes env 32))
                 (show_nat (date_now env))])"
proof (cases "key = []")
  case True
  then show thesis using that(1) by (simp add: verify_def)
next
  case key: False
  show thesis
  proof (cases env this key rule: verify_try_cases)
    case (no_hwid err this1)
    then have "\<exists>msg. verify env this key = (Inl msg, this1, [])"
      using key by (simp add: verify_def)
    then show thesis using that(2) key no_hwid(1) by blast
  next
    case (thrown hw this1 err)
    then have "\<exists>msg. verify env this key =
        (Inl msg, this1, [build_request env this1 key hw (toString_hex (randomBytes env 32))
                 (show_nat (date_now env))])"
      using key by (simp add: verify_def)
    then show thesis using that(3) key thrown(1) by blast
  next
    case (returned hw this1 response body)
    then have "verify env this key =
        (Inr (fst (process_result env this1 body)), snd (process_result env this1 body),
         [build_request env this1 key hw (toString_hex (randomBytes env 32))
                 (show_nat (date_now env))])"
      using key by (simp add: verify_def)
    then show thesis using that(4) key returned by blast
  qed
qed

lemma getHWID_fields:
  assumes "getHWID env this = (r, this1)"
  shows "customHWID this1 = customHWID this"
    and "priv_lastVerification this1 = priv_lastVerification this"
    and "secret1 this1 = secret1 this" and "secret2 this1 = secret2 this"
    and "secret3 this1 = secret3 this" and "autoHWID this1 = autoHWID this"
proof -
  have "this1 = this\<lparr>priv_hwid := priv_hwid this1\<rparr>"
    using getHWID_instance [of env this] assms by simp
  then obtain h where eq: "this1 = this\<lparr>priv_hwid := h\<rparr>" ..
  show "customHWID this1 = customHWID this"
    and "priv_lastVerification this1 = priv_lastVerification this"
    and "secret1 this1 = secret1 this" and "secret2 this1 = secret2 this"
    and "secret3 this1 = secret3 this" and "autoHWID this1 = autoHWID this"
    by (simp_all add: eq)
qed

lemma process_result_fields:
  "customHWID (snd (process_result env this body)) = customHWID this"
  "autoHWID (snd (process_result env this body)) = autoHWID this"
  by (simp_all add: process_result_def Let_def)

lemma process_result_cache:
  "process_result env this body = (result, this') \<Longrightarrow>
     (if success result then priv_lastVerification this' = Some result else this' = this)"
  by (auto simp: process_result_def Let_def split: if_splits)

lemma verify_customHWID:
  "customHWID (fst (snd (verify env this key))) = customHWID this"
  by (cases rule: verify_cases [where key = key and env = env and this = this])
     (simp_all add: getHWID_fields process_result_fields)

lemma verifyOrThrow_instance:
  "fst (snd (verifyOrThrow env this key)) = fst (snd (verify env this key))"
  by (simp add: verifyOrThrow_def split: prod.splits sum.splits)

lemma after_call_customHWID: "customHWID (after_call this c) = customHWID this"
proof (cases c)
  case (Call_generateHWID env)
  have "customHWID (this\<lparr>priv_hwid := priv_hwid (snd (generateHWID env this))\<rparr>) = customHWID this"
    by simp
  then show ?thesis using generateHWID_instance [of env this] Call_generateHWID by simp
next
  case (Call_getHWID env)
  then show ?thesis by (simp add: getHWID_customHWID)
next
  case (Call_verify env key)
  then show ?thesis by (simp add: verify_customHWID)
next
  case (Call_verifyOrThrow env key)
  then show ?thesis by (simp add: verifyOrThrow_instance verify_customHWID)
qed (simp_all add: clearCache_def)

lemma after_calls_customHWID: "customHWID (after_calls this calls) = customHWID this"
  unfolding after_calls_def
  by (induction calls arbitrary: this) (simp_all add: after_call_customHWID)


subsection \<open>Fingerprint: the claims\<close>

text \<open>The example surroundings, evaluated.\<close>

lemma example_env_fields:
  "os_hostname (example_env r) = Inr ''host''"
  "os_networkInterfaces (example_env r) = Inr example_interfaces"
  "os_cpus (example_env r) = [''cpu0'']"
  "os_platform (example_env r) = ''linux''"
  "os_arch (example_env r) = ''x64''"
  "sha256 (example_env r) = tag_hash"
  "randomBytes (example_env r) n = replicate n 0x0A"
  "date_now (example_env r) = 1700000000000"
  "date_iso (example_env r) = ''2023-11-14T22:13:20.000Z''"
  "encodeURIComponent (example_env r) s = s"
  "fetch (example_env r) url options = Inr r"
  by (simp_all add: example_env_def)

lemma example_env_platform_id: "platform_id (example_env r) = Some ''4c4c4544''"
  by (simp add: platform_id_def example_env_def cmd_linux_def trim_def is_space_def)

lemma example_env_components:
  "hwid_components (example_env r) =
     Inr [''cpu0'', ''host'', ''linux'', ''x64'', ''52:54:00:12:34:56'', ''52:54:00:12:34:56'',
          ''4c4c4544'']"
  by (simp add: hwid_components_closed [OF example_env_fields(1,2)] example_env_fields
      example_env_platform_id example_interfaces_def)

lemma example_machine_probes:
  "os_hostname example_machine = Inr ''host''"
  "os_networkInterfaces example_machine = Inr example_interfaces"
  "os_cpus example_machine = [''cpu0'']"
  "os_platform example_machine = ''linux''"
  "os_arch example_machine = ''x64''"
  "sha256 example_machine = tag_hash"
  unfolding example_machine_def by (rule example_env_fields)+

lemma example_platform_id: "platform_id example_machine = Some ''4c4c4544''"
  unfolding example_machine_def by (rule example_env_platform_id)

lemma example_components:
  "hwid_components example_machine =
     Inr [''cpu0'', ''host'', ''linux'', ''x64'', ''52:54:00:12:34:56'', ''52:54:00:12:34:56'',
          ''4c4c4544'']"
  unfolding example_machine_def by (rule example_env_components)

lemma tag_hash_nonempty: "tag_hash s \<noteq> []"
  by (simp add: tag_hash_def)

text \<open>
  Claim C6. \<open>getHWID()\<close> returns the custom fingerprint when one is set, whether
  auto-generation is enabled or not: this holds for a value given to the constructor, and
  after \<open>setHWID(x)\<close> every later \<open>getHWID()\<close> returns \<open>x\<close>, whatever calls of the other
  methods come in between. Without a custom value and with auto-generation enabled, the
  memoized fingerprint is returned when there is one, and otherwise the fingerprint is
  derived from the components and stored. Without a custom value and with auto-generation
  disabled the call fails with the error that the HWID is not set.
\<close>

theorem getHWID_state_machine:
  "(customHWID this = Some x \<and> x \<noteq> [] \<longrightarrow> getHWID env this = (Inr x, this))
   \<and> (NexveilAuth (Some c) = Inr built \<and> cfg_customHWID c = Some x \<and> x \<noteq> [] \<longrightarrow>
        getHWID env built = (Inr x, built))
   \<and> (setHWID x this = Inr this' \<longrightarrow>
        getHWID env (after_calls this' calls) = (Inr x, after_calls this' calls))
   \<and> (\<not> truthy (customHWID this) \<and> autoHWID this \<and> priv_hwid this = Some h \<and> h \<noteq> [] \<longrightarrow>
        getHWID env this = (Inr h, this))
   \<and> (\<not> truthy (customHWID this) \<and> autoHWID this \<and> \<not> truthy (priv_hwid this)
        \<and> hwid_components env = Inr cs \<longrightarrow>
        getHWID env this =
          (Inr (sha256 env (join ''||'' cs)),
           this\<lparr>priv_hwid := Some (sha256 env (join ''||'' cs))\<rparr>))
   \<and> (\<not> truthy (customHWID this) \<and> \<not> autoHWID this \<longrightarrow>
        getHWID env this =
          (Inl ''Nexveil: HWID not set. Enable autoHWID or provide customHWID'', this))"
proof -
  have set_wins: "getHWID env (after_calls this' calls) = (Inr x, after_calls this' calls)"
    if "setHWID x this = Inr this'"
  proof -
    from that have "customHWID this' = Some x" and "x \<noteq> []"
      using setHWID_custom by blast+
    then show ?thesis
      by (simp add: getHWID_custom after_calls_customHWID)
  qed
  show ?thesis
    using set_wins
    by (auto simp: getHWID_custom NexveilAuth_custom getHWID_auto generateHWID_cached
        generateHWID_fresh getHWID_unset)
qed

text \<open>
  Claim C9. When a custom HWID is configured, by the constructor or by an earlier
  \<open>setHWID\<close>, every call of \<open>generateHWID()\<close> returns that value as it is and leaves the
  instance unchanged, in any surroundings: nothing is hashed and no component of the
  system is read.
\<close>

theorem generateHWID_returns_custom:
  "(customHWID this = Some x \<and> x \<noteq> [] \<longrightarrow> generateHWID env this = (Inr x, this))
   \<and> (NexveilAuth (Some c) = Inr built \<and> cfg_customHWID c = Some x \<and> x \<noteq> [] \<longrightarrow>
        generateHWID env (after_calls built calls) = (Inr x, after_calls built calls))
   \<and> (setHWID x this = Inr this' \<longrightarrow>
        generateHWID env (after_calls this' calls) = (Inr x, after_calls this' calls))"
proof -
  have built: "generateHWID env (after_calls built calls) = (Inr x, after_calls built calls)"
    if "NexveilAuth (Some c) = Inr built" and "cfg_customHWID c = Some x" and "x \<noteq> []"
    using that by (simp add: generateHWID_custom after_calls_customHWID NexveilAuth_custom)
  have set: "generateHWID env (after_calls this' calls) = (Inr x, after_calls this' calls)"
    if "setHWID x this = Inr this'"
  proof -
    from that have "customHWID this' = Some x" and "x \<noteq> []"
      using setHWID_custom by blast+
    then show ?thesis
      by (simp add: generateHWID_custom after_calls_customHWID)
  qed
  show ?thesis using built set by (auto simp: generateHWID_custom)
qed

text \<open>
  Claim C7, amended. Without a custom HWID and without a memoized value, when the probes
  answer, \<open>generateHWID()\<close> hashes the components joined by \<open>||\<close>, in this order: the model
  of the first CPU if any CPU is reported, the host name, the platform, the architecture,
  the sorted list of the MAC addresses of all interface entries that are neither empty nor
  all-zero, an address being listed once for each entry that carries it, and the
  platform-specific identifier if its lookup gave one. The value is stored in the instance,
  and since the digest is never empty every later call returns it without reading the
  surroundings. When every command fails, no identifier is added and the derivation still
  succeeds.
\<close>

theorem generateHWID_derivation:
  assumes "\<not> truthy (customHWID this)" and "\<not> truthy (priv_hwid this)"
    and "os_hostname env = Inr hostname" and "os_networkInterfaces env = Inr interfaces"
    and "\<And>s. sha256 env s \<noteq> []"
  shows "let components =
               (case os_cpus env of [] \<Rightarrow> [] | model # others \<Rightarrow> [model])
               @ [hostname, os_platform env, os_arch env]
               @ sort (filter (\<lambda>m. m \<noteq> [] \<and> m \<noteq> ''00:00:00:00:00:00'')
                         (map mac (concat (map snd interfaces))))
               @ (case platform_id env of None \<Rightarrow> [] | Some ident \<Rightarrow> [ident]);
             hwid = sha256 env (join ''||'' components);
             this' = this\<lparr>priv_hwid := Some hwid\<rparr>
         in generateHWID env this = (Inr hwid, this')
            \<and> (\<forall>env'. generateHWID env' this' = (Inr hwid, this'))
            \<and> ((\<forall>cmd. isl (execSync env cmd)) \<longrightarrow> platform_id env = None)"
proof -
  have first: "generateHWID env this = (Inr (sha256 env (join ''||'' cs)),
      this\<lparr>priv_hwid := Some (sha256 env (join ''||'' cs))\<rparr>)"
    if "hwid_components env = Inr cs" for cs
    using that assms(1,2) by (rule generateHWID_fresh [rotated 2])
  have again: "generateHWID env' (this\<lparr>priv_hwid := Some h\<rparr>) = (Inr h, this\<lparr>priv_hwid := Some h\<rparr>)"
    if "h \<noteq> []" for env' h
    using that assms(1) by (simp add: generateHWID_cached)
  have omitted: "platform_id env = None" if "\<forall>cmd. isl (execSync env cmd)"
  proof -
    have failing: "\<exists>err. execSync env cmd = Inl err" for cmd
      using that by (cases "execSync env cmd") (auto dest: spec [of _ cmd])
    obtain e1 e2 e3 where "execSync env cmd_win32 = Inl e1"
      and "execSync env cmd_linux = Inl e2" and "execSync env cmd_darwin = Inl e3"
      using failing by blast
    then show ?thesis
      by (simp add: platform_id_def)
  qed
  show ?thesis
    unfolding Let_def
    using first [OF hwid_components_closed [OF assms(3,4)]] again [OF assms(5)] omitted
    by blast
qed


theorem getHWID_state_machine_witness:
  "getHWID example_machine (example_auth\<lparr>customHWID := Some ''X''\<rparr>)
     = (Inr ''X'', example_auth\<lparr>customHWID := Some ''X''\<rparr>)
   \<and> (\<exists>this'. setHWID ''X'' example_auth = Inr this' \<and> autoHWID this'
        \<and> fst (getHWID example_machine
                  (after_calls this' [Call_generateHWID example_machine, Call_clearCache]))
            = Inr ''X'')
   \<and> getHWID example_machine example_auth
       = (Inr example_hwid, example_auth\<lparr>priv_hwid := Some example_hwid\<rparr>)
   \<and> getHWID example_machine (example_auth\<lparr>priv_hwid := Some ''memo''\<rparr>)
       = (Inr ''memo'', example_auth\<lparr>priv_hwid := Some ''memo''\<rparr>)
   \<and> getHWID example_machine (example_auth\<lparr>autoHWID := False\<rparr>)
       = (Inl ''Nexveil: HWID not set. Enable autoHWID or provide customHWID'',
          example_auth\<lparr>autoHWID := False\<rparr>)"
proof -
  have 1: "getHWID example_machine (example_auth\<lparr>customHWID := Some ''X''\<rparr>)
     = (Inr ''X'', example_auth\<lparr>customHWID := Some ''X''\<rparr>)"
    using getHWID_state_machine [where this = "example_auth\<lparr>customHWID := Some ''X''\<rparr>"
        and x = "''X''" and env = example_machine]
    by simp
  have set: "setHWID ''X'' example_auth
      = Inr (example_auth\<lparr>customHWID := Some ''X'', priv_hwid := Some ''X''\<rparr>)"
    by (simp add: setHWID_def)
  have 2: "\<exists>this'. setHWID ''X'' example_auth = Inr this' \<and> autoHWID this'
        \<and> fst (getHWID example_machine
                  (after_calls this' [Call_generateHWID example_machine, Call_clearCache]))
            = Inr ''X''"
    using getHWID_state_machine [where x = "''X''" and env = example_machine
        and this = example_auth
        and this' = "example_auth\<lparr>customHWID := Some ''X'', priv_hwid := Some ''X''\<rparr>"
        and calls = "[Call_generateHWID example_machine, Call_clearCache]"] set
    by (simp add: example_auth_def)
  have 3: "getHWID example_machine example_auth
       = (Inr example_hwid, example_auth\<lparr>priv_hwid := Some example_hwid\<rparr>)"
    using getHWID_state_machine [where this = example_auth and env = example_machine
        and cs = "[''cpu0'', ''host'', ''linux'', ''x64'', ''52:54:00:12:34:56'',
                   ''52:54:00:12:34:56'', ''4c4c4544'']"] example_components
    by (simp add: example_auth_def truthy_def example_machine_probes example_hwid_def)
  have 4: "getHWID example_machine (example_auth\<lparr>priv_hwid := Some ''memo''\<rparr>)
       = (Inr ''memo'', example_auth\<lparr>priv_hwid := Some ''memo''\<rparr>)"
    using getHWID_state_machine [where this = "example_auth\<lparr>priv_hwid := Some ''memo''\<rparr>"
        and env = example_machine and h = "''memo''"]
    by (simp add: example_auth_def truthy_def)
  have 5: "getHWID example_machine (example_auth\<lparr>autoHWID := False\<rparr>)
       = (Inl ''Nexveil: HWID not set. Enable autoHWID or provide customHWID'',
          example_auth\<lparr>autoHWID := False\<rparr>)"
    using getHWID_state_machine [where this = "example_auth\<lparr>autoHWID := False\<rparr>"
        and env = example_machine]
    by (simp add: example_auth_def truthy_def)
  show ?thesis using 1 2 3 4 5 by blast
qed


theorem generateHWID_returns_custom_witness:
  "generateHWID example_machine (example_auth\<lparr>customHWID := Some ''my-custom-hwid''\<rparr>)
     = (Inr ''my-custom-hwid'', example_auth\<lparr>customHWID := Some ''my-custom-hwid''\<rparr>)
   \<and> (\<exists>built. NexveilAuth (Some (example_config\<lparr>cfg_customHWID := Some ''my-custom-hwid''\<rparr>))
                 = Inr built
        \<and> fst (generateHWID example_machine built) = Inr ''my-custom-hwid'')
   \<and> (\<exists>this'. setHWID ''my-custom-hwid'' example_auth = Inr this'
        \<and> fst (generateHWID example_machine (after_calls this' [Call_getHWID example_machine]))
            = Inr ''my-custom-hwid'')"
proof -
  have 1: "generateHWID example_machine (example_auth\<lparr>customHWID := Some ''my-custom-hwid''\<rparr>)
     = (Inr ''my-custom-hwid'', example_auth\<lparr>customHWID := Some ''my-custom-hwid''\<rparr>)"
    using generateHWID_returns_custom
      [where this = "example_auth\<lparr>customHWID := Some ''my-custom-hwid''\<rparr>"
        and x = "''my-custom-hwid''" and env = example_machine]
    by simp
  have built: "NexveilAuth (Some (example_config\<lparr>cfg_customHWID := Some ''my-custom-hwid''\<rparr>))
      = Inr (example_auth\<lparr>customHWID := Some ''my-custom-hwid''\<rparr>)"
    using example_auth_built
    by (simp add: NexveilAuth_validate validateConfig_Some example_config_def example_auth_def
        or_null_def truthy_def split: sum.splits if_splits)
  have 2: "\<exists>built. NexveilAuth (Some (example_config\<lparr>cfg_customHWID := Some ''my-custom-hwid''\<rparr>))
                 = Inr built
        \<and> fst (generateHWID example_machine built) = Inr ''my-custom-hwid''"
    using generateHWID_returns_custom
      [where c = "example_config\<lparr>cfg_customHWID := Some ''my-custom-hwid''\<rparr>"
        and built = "example_auth\<lparr>customHWID := Some ''my-custom-hwid''\<rparr>"
        and x = "''my-custom-hwid''" and env = example_machine and calls = "[]"] built
    by (simp add: after_calls_def)
  have set: "setHWID ''my-custom-hwid'' example_auth
      = Inr (example_auth\<lparr>customHWID := Some ''my-custom-hwid'',
                           priv_hwid := Some ''my-custom-hwid''\<rparr>)"
    by (simp add: setHWID_def)
  have 3: "\<exists>this'. setHWID ''my-custom-hwid'' example_auth = Inr this'
        \<and> fst (generateHWID example_machine (after_calls this' [Call_getHWID example_machine]))
            = Inr ''my-custom-hwid''"
    using generateHWID_returns_custom
      [where this = example_auth and x = "''my-custom-hwid''" and env = example_machine
        and this' = "example_auth\<lparr>customHWID := Some ''my-custom-hwid'',
                                   priv_hwid := Some ''my-custom-hwid''\<rparr>"
        and calls = "[Call_getHWID example_machine]"] set
    by simp
  show ?thesis using 1 2 3 by blast
qed

theorem generateHWID_derivation_witness:
  "generateHWID example_machine example_auth
     = (Inr example_hwid, example_auth\<lparr>priv_hwid := Some example_hwid\<rparr>)
   \<and> generateHWID (example_machine\<lparr>os_hostname := Inl ''uv_os_gethostname failed''\<rparr>)
         (example_auth\<lparr>priv_hwid := Some example_hwid\<rparr>)
       = (Inr example_hwid, example_auth\<lparr>priv_hwid := Some example_hwid\<rparr>)"
proof -
  have "\<not> truthy (customHWID example_auth)" and "\<not> truthy (priv_hwid example_auth)"
    by (simp_all add: example_auth_def truthy_def)
  moreover have "\<And>s. sha256 example_machine s \<noteq> []"
    by (simp add: example_machine_probes tag_hash_nonempty)
  ultimately show ?thesis
    using generateHWID_derivation [of example_auth example_machine "''host''" example_interfaces]
      example_machine_probes(1,2)
    by (simp add: Let_def example_machine_probes example_platform_id example_interfaces_def
        example_hwid_def)
qed

text \<open>
  Claim C7 as stated asks for the sorted set of the MAC addresses. On a machine whose
  network card has two addresses the card's MAC address enters the fingerprint twice.
\<close>

theorem fingerprint_repeats_mac_counterexample:
  "hwid_components example_machine
     \<noteq> Inr (spec_hwid_components example_machine ''host'' example_interfaces)
   \<and> hwid_components example_machine =
     Inr [''cpu0'', ''host'', ''linux'', ''x64'', ''52:54:00:12:34:56'', ''52:54:00:12:34:56'',
          ''4c4c4544'']
   \<and> spec_hwid_components example_machine ''host'' example_interfaces =
     [''cpu0'', ''host'', ''linux'', ''x64'', ''52:54:00:12:34:56'', ''4c4c4544'']
   \<and> fst (generateHWID example_machine example_auth) =
       Inr (sha256 example_machine
              ''cpu0||host||linux||x64||52:54:00:12:34:56||52:54:00:12:34:56||4c4c4544'')
   \<and> join ''||'' (spec_hwid_components example_machine ''host'' example_interfaces) =
       ''cpu0||host||linux||x64||52:54:00:12:34:56||4c4c4544''"
proof -
  have spec: "spec_hwid_components example_machine ''host'' example_interfaces =
     [''cpu0'', ''host'', ''linux'', ''x64'', ''52:54:00:12:34:56'', ''4c4c4544'']"
    by (simp add: spec_hwid_components_def example_machine_probes example_platform_id
        example_interfaces_def)
  have "\<not> truthy (customHWID example_auth)" and "\<not> truthy (priv_hwid example_auth)"
    by (simp_all add: example_auth_def truthy_def)
  then have "fst (generateHWID example_machine example_auth) =
       Inr (sha256 example_machine
              ''cpu0||host||linux||x64||52:54:00:12:34:56||52:54:00:12:34:56||4c4c4544'')"
    by (simp add: generateHWID_fresh [OF _ _ example_components])
  then show ?thesis
    using spec example_components by simp
qed


subsection \<open>Verification: the claims\<close>

lemma example_getHWID:
  "getHWID (example_env r) example_auth
     = (Inr example_hwid, example_auth\<lparr>priv_hwid := Some example_hwid\<rparr>)"
proof -
  have "\<not> truthy (customHWID example_auth)" and "\<not> truthy (priv_hwid example_auth)"
    and "autoHWID example_auth"
    by (simp_all add: example_auth_def truthy_def)
  then show ?thesis
    by (simp add: getHWID_auto generateHWID_fresh [OF _ _ example_env_components]
        example_env_fields example_hwid_def)
qed

lemma example_nonce_hex: "toString_hex (replicate 32 0x0A) = example_nonce"
  by code_simp

lemma example_time: "show_nat 1700000000000 = ''1700000000000''"
  by (simp add: show_nat.simps digit_def)

lemma includes_nexveil: "includes_str (''nexveil:'' @ s) ''nexveil:''"
  by (simp add: includes_str_def)

lemma example_build_request:
  "build_request (example_env r) (example_auth\<lparr>priv_hwid := Some example_hwid\<rparr>) ''ABC''
     example_hwid example_nonce ''1700000000000'' = example_request"
  by (simp add: build_request_def example_request_def example_env_fields example_auth_def Let_def)

lemma example_verify_try_sent:
  "verify_try (example_env (answer c sig)) example_auth ''ABC'' =
     (case check_signature (example_env (answer c sig))
             (example_auth\<lparr>priv_hwid := Some example_hwid\<rparr>) example_nonce
             \<lparr> body_code = Some c, body_message = Some ''Success'',
               body_signature = sig, body_data = None \<rparr> of
        Inl err \<Rightarrow> (Inl err, example_auth\<lparr>priv_hwid := Some example_hwid\<rparr>, [example_request])
      | Inr u \<Rightarrow>
          (Inr (fst (process_result (example_env (answer c sig))
                       (example_auth\<lparr>priv_hwid := Some example_hwid\<rparr>)
                       \<lparr> body_code = Some c, body_message = Some ''Success'',
                         body_signature = sig, body_data = None \<rparr>)),
           snd (process_result (example_env (answer c sig))
                       (example_auth\<lparr>priv_hwid := Some example_hwid\<rparr>)
                       \<lparr> body_code = Some c, body_message = Some ''Success'',
                         body_signature = sig, body_data = None \<rparr>),
           [example_request]))"
  by (simp add: verify_try_def example_getHWID example_env_fields example_nonce_hex
      example_time example_build_request Let_def answer_def split: sum.splits prod.splits)

lemma example_verify_unsigned:
  "verify (example_env (answer ''KEY_VALID'' (Some []))) example_auth ''ABC'' =
     (Inr (valid_result None),
      example_auth\<lparr>priv_hwid := Some example_hwid,
                    priv_lastVerification := Some (valid_result None)\<rparr>,
      [example_request])"
  by (simp add: verify_def example_verify_try_sent check_signature_def truthy_def
      process_result_def or_else_def or_null_def valid_result_def example_env_fields Let_def)

lemma process_result_classify:
  "isActivated (fst (process_result env this body))
     = (code (fst (process_result env this body)) = ''KEY_ACTIVATED'')"
  "isValid (fst (process_result env this body))
     = (code (fst (process_result env this body)) = ''KEY_VALID''
        \<or> code (fst (process_result env this body)) = ''KEY_ACTIVATED'')"
  "success (fst (process_result env this body)) = isValid (fst (process_result env this body))"
  by (auto simp: process_result_def Let_def or_else_def split: option.splits)

text \<open>
  Claim C1, amended. Take a call \<open>verify(key)\<close> that reaches the parsed body of a
  response: the key is not empty, the fingerprint is available, the transport answers, the
  status is not a failure of 500 or more, and the body is an object. If the body carries a
  non-empty \<open>signature\<close> that differs from SHA256(clientNonce, secret3, code), computed
  with the nonce of this call, then \<open>verify\<close> throws the signature-verification error:
  no result is built, whatever the code says, and the cached result is the one from before
  the call.
\<close>

theorem verify_rejects_bad_signature:
  assumes "key \<noteq> []"
    and "getHWID env this = (Inr hw, this1)"
    and "request = build_request env this1 key hw (toString_hex (randomBytes env 32))
                     (show_nat (date_now env))"
    and "fetch env (call_url request) (call_options request) = Inr response"
    and "\<not> (\<not> ok response \<and> 500 \<le> status response)"
    and "json response = Inr (Some body)"
    and "body_signature body = Some sig" and "sig \<noteq> []"
    and "sig \<noteq> sha256 env (toString_hex (randomBytes env 32) @ secret3 this
                          @ to_str (body_code body))"
  shows "verify env this key =
           (Inl ''nexveil: Server signature verification failed - response may be tampered'',
            this1, [request])
         \<and> getLastVerification this1 = getLastVerification this"
proof -
  have s3: "secret3 this1 = secret3 this"
    and cache: "priv_lastVerification this1 = priv_lastVerification this"
    using getHWID_fields [OF assms(2)] by simp_all
  have "check_signature env this1 (toString_hex (randomBytes env 32)) body =
      Inl ''nexveil: Server signature verification failed - response may be tampered''"
    using assms(7-9) s3 by (simp add: check_signature_def truthy_def Let_def)
  then have "verify_try env this key =
      (Inl ''nexveil: Server signature verification failed - response may be tampered'',
       this1, [request])"
    using assms(2-6) by (auto simp: verify_try_def Let_def)
  moreover have "includes_str
      ''nexveil: Server signature verification failed - response may be tampered'' ''nexveil:''"
    using includes_nexveil [of "'' Server signature verification failed - response may be tampered''"]
    by simp
  ultimately show ?thesis
    using assms(1) cache by (simp add: verify_def getLastVerification_def)
qed

theorem verify_rejects_bad_signature_witness:
  "verify (example_env (answer ''KEY_VALID'' (Some (tag_hash (example_nonce @ secret_a @ ''KEY_VALID'')))))
      example_auth ''ABC'' =
     (Inl ''nexveil: Server signature verification failed - response may be tampered'',
      example_auth\<lparr>priv_hwid := Some example_hwid\<rparr>, [example_request])
   \<and> getLastVerification (example_auth\<lparr>priv_hwid := Some example_hwid\<rparr>)
       = getLastVerification example_auth"
proof -
  let ?sig = "tag_hash (example_nonce @ secret_a @ ''KEY_VALID'')"
  let ?env = "example_env (answer ''KEY_VALID'' (Some ?sig))"
  let ?body = "\<lparr> body_code = Some ''KEY_VALID'', body_message = Some ''Success'',
                  body_signature = Some ?sig, body_data = None \<rparr>"
  have "secret_a \<noteq> secret_c"
    by (simp add: secret_a_def secret_c_def)
  then have differ: "?sig \<noteq> sha256 ?env (toString_hex (randomBytes ?env 32) @ secret3 example_auth
                                @ to_str (body_code ?body))"
    by (simp add: example_env_fields example_nonce_hex tag_hash_def example_auth_def to_str_def)
  have "?sig \<noteq> []" by (rule tag_hash_nonempty)
  then show ?thesis
    using verify_rejects_bad_signature [of "''ABC''" ?env example_auth example_hwid
        "example_auth\<lparr>priv_hwid := Some example_hwid\<rparr>" example_request
        "answer ''KEY_VALID'' (Some ?sig)" ?body ?sig] differ
    by (simp add: example_getHWID example_env_fields example_nonce_hex example_time
        example_build_request answer_def)
qed

text \<open>
  Claim C1 as stated covers every signature field that differs from the expected digest.
  The empty string differs from it, yet the guard \<open>if (data.signature)\<close> skips the check
  for it: the response \<open>KEY_VALID\<close> with \<open>signature: ""\<close> is accepted and cached.
\<close>

theorem empty_signature_accepted_counterexample:
  "json (answer ''KEY_VALID'' (Some [])) =
     Inr (Some \<lparr> body_code = Some ''KEY_VALID'', body_message = Some ''Success'',
                 body_signature = Some [], body_data = None \<rparr>)
   \<and> [] \<noteq> sha256 (example_env (answer ''KEY_VALID'' (Some [])))
             (toString_hex (randomBytes (example_env (answer ''KEY_VALID'' (Some []))) 32)
              @ secret3 example_auth @ ''KEY_VALID'')
   \<and> verify (example_env (answer ''KEY_VALID'' (Some []))) example_auth ''ABC'' =
     (Inr (valid_result None),
      example_auth\<lparr>priv_hwid := Some example_hwid,
                    priv_lastVerification := Some (valid_result None)\<rparr>,
      [example_request])
   \<and> success (valid_result None)
   \<and> getLastVerification example_auth = None"
proof -
  have "json (answer ''KEY_VALID'' (Some [])) =
     Inr (Some \<lparr> body_code = Some ''KEY_VALID'', body_message = Some ''Success'',
                 body_signature = Some [], body_data = None \<rparr>)"
    by (simp add: answer_def)
  moreover have "[] \<noteq> sha256 (example_env (answer ''KEY_VALID'' (Some [])))
             (toString_hex (randomBytes (example_env (answer ''KEY_VALID'' (Some []))) 32)
              @ secret3 example_auth @ ''KEY_VALID'')"
    by (simp add: example_env_fields tag_hash_def)
  moreover have "success (valid_result None)"
    by (simp add: valid_result_def)
  moreover have "getLastVerification example_auth = None"
    by (simp add: getLastVerification_def example_auth_def)
  ultimately show ?thesis
    using example_verify_unsigned by blast
qed

text \<open>
  Claim C2. A call \<open>verify(key)\<close> with a non-empty key and an available fingerprint sends
  exactly one request, and the header \<open>externalsignature\<close> of a request sent by \<open>verify\<close>
  is SHA256 of nonce, secret1, key, secret2, timestamp, secret3, hwid concatenated in this
  order, where nonce, timestamp and hwid are the values of the headers \<open>clientnonce\<close>,
  \<open>clienttime\<close> and \<open>clienthwid\<close> of the same request: the nonce drawn for the call in
  hexadecimal, the clock in decimal and the value of \<open>getHWID()\<close>. The signature is a
  function of these seven strings only.
\<close>

theorem verify_client_signature:
  "(key \<noteq> [] \<and> getHWID env this = (Inr hw, this1) \<longrightarrow>
      (\<exists>request. snd (snd (verify env this key)) = [request]))
   \<and> (request \<in> set (snd (snd (verify env this key))) \<longrightarrow>
      (\<exists>nonce time hwid.
          nonce = toString_hex (randomBytes env 32)
        \<and> time = show_nat (date_now env)
        \<and> fst (getHWID env this) = Inr hwid
        \<and> map_of (fo_headers (call_options request)) ''clientnonce'' = Some nonce
        \<and> map_of (fo_headers (call_options request)) ''clienttime'' = Some time
        \<and> map_of (fo_headers (call_options request)) ''clienthwid'' = Some hwid
        \<and> map_of (fo_headers (call_options request)) ''externalsignature''
            = Some (sha256 env (nonce @ secret1 this @ key @ secret2 this @ time
                                @ secret3 this @ hwid))))"
proof -
  have headers: "map_of (fo_headers (call_options (build_request env t key h n tm))) ''clientnonce'' = Some n
      \<and> map_of (fo_headers (call_options (build_request env t key h n tm))) ''clienttime'' = Some tm
      \<and> map_of (fo_headers (call_options (build_request env t key h n tm))) ''clienthwid'' = Some h
      \<and> map_of (fo_headers (call_options (build_request env t key h n tm))) ''externalsignature''
          = Some (sha256 env (n @ secret1 t @ key @ secret2 t @ tm @ secret3 t @ h))"
    for t h n tm
    by (simp add: build_request_def Let_def)
  show ?thesis
  proof (cases rule: verify_cases [where key = key and env = env and this = this])
    case empty_key
    then show ?thesis by simp
  next
    case (no_hwid err t msg)
    then show ?thesis by simp
  next
    case (thrown h t msg)
    then show ?thesis
      using headers [of t h] getHWID_fields [OF thrown(2)] by simp
  next
    case (returned h t response body)
    then show ?thesis
      using headers [of t h] getHWID_fields [OF returned(2)] by simp
  qed
qed

theorem verify_client_signature_witness:
  "snd (snd (verify (example_env (answer ''KEY_VALID'' (Some []))) example_auth ''ABC''))
     = [example_request]
   \<and> map_of (fo_headers (call_options example_request)) ''externalsignature''
       = Some (tag_hash (example_nonce @ secret_a @ ''ABC'' @ secret_b @ ''1700000000000''
                         @ secret_c @ example_hwid))"
proof -
  let ?env = "example_env (answer ''KEY_VALID'' (Some []))"
  have sent: "snd (snd (verify ?env example_auth ''ABC'')) = [example_request]"
    by (simp add: example_verify_unsigned)
  then have "example_request \<in> set (snd (snd (verify ?env example_auth ''ABC'')))"
    by simp
  then have "map_of (fo_headers (call_options example_request)) ''externalsignature''
       = Some (sha256 ?env (toString_hex (randomBytes ?env 32) @ secret1 example_auth @ ''ABC''
                 @ secret2 example_auth @ show_nat (date_now ?env) @ secret3 example_auth
                 @ example_hwid))"
    using verify_client_signature [where key = "''ABC''" and env = ?env and this = example_auth
        and request = example_request]
    by (simp add: example_getHWID)
  then show ?thesis
    using sent
    by (simp add: example_env_fields example_nonce_hex example_time example_auth_def)
qed

lemma process_result_from_body:
  "(\<forall>c. body_code body = Some c \<and> c \<noteq> [] \<longrightarrow> code (fst (process_result env this body)) = c)"
  "\<not> truthy (body_code body) \<longrightarrow> code (fst (process_result env this body)) = ''UNKNOWN_ERROR''"
  "isActivated (fst (process_result env this body)) = (body_code body = Some ''KEY_ACTIVATED'')"
  "isValid (fst (process_result env this body))
     = (body_code body = Some ''KEY_VALID'' \<or> body_code body = Some ''KEY_ACTIVATED'')"
  by (auto simp: process_result_def Let_def or_else_def truthy_def split: option.splits)

text \<open>
  Claim C3. Every result that \<open>verify\<close> returns comes from the body of the response to
  the request of this call, and is classified by the code of that body: the code of the
  result is the code of the body (\<open>UNKNOWN_ERROR\<close> when the body has none),
  \<open>isActivated\<close> holds exactly when the code of the body is \<open>KEY_ACTIVATED\<close>, \<open>isValid\<close>
  exactly when it is \<open>KEY_VALID\<close> or \<open>KEY_ACTIVATED\<close>, and \<open>success\<close> equals \<open>isValid\<close>; so
  every response code outside these two gives \<open>success = false\<close>. The same equations hold
  with the code that the result reports.
\<close>

theorem verify_classifies_code:
  assumes "verify env this key = (Inr result, this', sent)"
  shows "\<exists>hw this1 response body.
           getHWID env this = (Inr hw, this1)
         \<and> fetch env
               (call_url (build_request env this1 key hw (toString_hex (randomBytes env 32))
                            (show_nat (date_now env))))
               (call_options (build_request env this1 key hw (toString_hex (randomBytes env 32))
                            (show_nat (date_now env)))) = Inr response
         \<and> json response = Inr (Some body)
         \<and> (\<forall>c. body_code body = Some c \<and> c \<noteq> [] \<longrightarrow> code result = c)
         \<and> (\<not> truthy (body_code body) \<longrightarrow> code result = ''UNKNOWN_ERROR'')
         \<and> isActivated result = (body_code body = Some ''KEY_ACTIVATED'')
         \<and> isValid result
             = (body_code body = Some ''KEY_VALID'' \<or> body_code body = Some ''KEY_ACTIVATED'')
         \<and> success result = isValid result
         \<and> (body_code body \<noteq> Some ''KEY_VALID'' \<and> body_code body \<noteq> Some ''KEY_ACTIVATED''
              \<longrightarrow> \<not> success result)
         \<and> isActivated result = (code result = ''KEY_ACTIVATED'')
         \<and> isValid result = (code result = ''KEY_VALID'' \<or> code result = ''KEY_ACTIVATED'')
         \<and> (code result \<noteq> ''KEY_VALID'' \<and> code result \<noteq> ''KEY_ACTIVATED'' \<longrightarrow> \<not> success result)"
proof (cases rule: verify_cases [where key = key and env = env and this = this])
  case (returned hw this1 response body)
  with assms have r: "result = fst (process_result env this1 body)"
    by simp
  have flags: "(\<forall>c. body_code body = Some c \<and> c \<noteq> [] \<longrightarrow> code result = c)
         \<and> (\<not> truthy (body_code body) \<longrightarrow> code result = ''UNKNOWN_ERROR'')
         \<and> isActivated result = (body_code body = Some ''KEY_ACTIVATED'')
         \<and> isValid result
             = (body_code body = Some ''KEY_VALID'' \<or> body_code body = Some ''KEY_ACTIVATED'')
         \<and> success result = isValid result
         \<and> (body_code body \<noteq> Some ''KEY_VALID'' \<and> body_code body \<noteq> Some ''KEY_ACTIVATED''
              \<longrightarrow> \<not> success result)
         \<and> isActivated result = (code result = ''KEY_ACTIVATED'')
         \<and> isValid result = (code result = ''KEY_VALID'' \<or> code result = ''KEY_ACTIVATED'')
         \<and> (code result \<noteq> ''KEY_VALID'' \<and> code result \<noteq> ''KEY_ACTIVATED'' \<longrightarrow> \<not> success result)"
    unfolding r
    using process_result_from_body [where body = body and env = env and this = this1]
      process_result_classify [of env this1 body]
    by auto
  show ?thesis
    using returned(2,3,5) flags by blast
qed (use assms in simp_all)

theorem verify_classifies_code_witness:
  "(\<exists>result this' sent.
      verify (example_env (answer ''KEY_VALID'' None)) example_auth ''ABC'' = (Inr result, this', sent)
      \<and> code result = ''KEY_VALID'' \<and> success result \<and> isValid result \<and> \<not> isActivated result)
   \<and> (\<exists>result this' sent.
      verify (example_env (answer ''KEY_ACTIVATED'' None)) example_auth ''ABC'' = (Inr result, this', sent)
      \<and> code result = ''KEY_ACTIVATED'' \<and> success result \<and> isValid result \<and> isActivated result)
   \<and> (\<exists>result this' sent.
      verify (example_env (answer ''KEY_EXPIRED'' None)) example_auth ''ABC'' = (Inr result, this', sent)
      \<and> code result = ''KEY_EXPIRED'' \<and> \<not> success result \<and> \<not> isValid result \<and> \<not> isActivated result)"
proof -
  have run: "\<exists>result this' sent.
      verify (example_env (answer c None)) example_auth ''ABC'' = (Inr result, this', sent)"
    for c
    by (simp add: verify_def example_verify_try_sent check_signature_def truthy_def)
  have classified: "code result = c
      \<and> isActivated result = (c = ''KEY_ACTIVATED'')
      \<and> isValid result = (c = ''KEY_VALID'' \<or> c = ''KEY_ACTIVATED'')
      \<and> success result = isValid result"
    if v: "verify (example_env (answer c None)) example_auth ''ABC'' = (Inr result, this', sent)"
      and c: "c \<noteq> []"
    for c result this' sent
  proof -
    obtain hw this1 response body where "fetch (example_env (answer c None))
               (call_url (build_request (example_env (answer c None)) this1 ''ABC'' hw
                  (toString_hex (randomBytes (example_env (answer c None)) 32))
                  (show_nat (date_now (example_env (answer c None))))))
               (call_options (build_request (example_env (answer c None)) this1 ''ABC'' hw
                  (toString_hex (randomBytes (example_env (answer c None)) 32))
                  (show_nat (date_now (example_env (answer c None)))))) = Inr response"
      and "json response = Inr (Some body)"
      and f: "(\<forall>c. body_code body = Some c \<and> c \<noteq> [] \<longrightarrow> code result = c)"
        "isActivated result = (body_code body = Some ''KEY_ACTIVATED'')"
        "isValid result
             = (body_code body = Some ''KEY_VALID'' \<or> body_code body = Some ''KEY_ACTIVATED'')"
        "success result = isValid result"
      using verify_classifies_code [OF v] by blast
    then have "body_code body = Some c"
      by (auto simp: example_env_fields answer_def)
    with f c show ?thesis by auto
  qed
  have 1: "\<exists>result this' sent.
      verify (example_env (answer ''KEY_VALID'' None)) example_auth ''ABC'' = (Inr result, this', sent)
      \<and> code result = ''KEY_VALID'' \<and> success result \<and> isValid result \<and> \<not> isActivated result"
  proof -
    obtain result this' sent where v: "verify (example_env (answer ''KEY_VALID'' None))
        example_auth ''ABC'' = (Inr result, this', sent)"
      using run by blast
    from classified [OF v] have "code result = ''KEY_VALID'' \<and> success result
        \<and> isValid result \<and> \<not> isActivated result"
      by simp
    with v show ?thesis by blast
  qed
  have 2: "\<exists>result this' sent.
      verify (example_env (answer ''KEY_ACTIVATED'' None)) example_auth ''ABC'' = (Inr result, this', sent)
      \<and> code result = ''KEY_ACTIVATED'' \<and> success result \<and> isValid result \<and> isActivated result"
  proof -
    obtain result this' sent where v: "verify (example_env (answer ''KEY_ACTIVATED'' None))
        example_auth ''ABC'' = (Inr result, this', sent)"
      using run by blast
    from classified [OF v] have "code result = ''KEY_ACTIVATED'' \<and> success result
        \<and> isValid result \<and> isActivated result"
      by simp
    with v show ?thesis by blast
  qed
  have 3: "\<exists>result this' sent.
      verify (example_env (answer ''KEY_EXPIRED'' None)) example_auth ''ABC'' = (Inr result, this', sent)
      \<and> code result = ''KEY_EXPIRED'' \<and> \<not> success result \<and> \<not> isValid result \<and> \<not> isActivated result"
  proof -
    obtain result this' sent where v: "verify (example_env (answer ''KEY_EXPIRED'' None))
        example_auth ''ABC'' = (Inr result, this', sent)"
      using run by blast
    from classified [OF v] have "code result = ''KEY_EXPIRED'' \<and> \<not> success result
        \<and> \<not> isValid result \<and> \<not> isActivated result"
      by simp
    with v show ?thesis by blast
  qed
  show ?thesis using 1 2 3 by blast
qed

lemma verify_cache:
  assumes "verify env this key = (outcome, this', sent)"
  shows "case outcome of
           Inl err \<Rightarrow> priv_lastVerification this' = priv_lastVerification this
         | Inr result \<Rightarrow>
             if success result then priv_lastVerification this' = Some result
             else priv_lastVerification this' = priv_lastVerification this"
proof (cases rule: verify_cases [where key = key and env = env and this = this])
  case empty_key
  with assms show ?thesis by auto
next
  case (no_hwid err this1 msg)
  with assms show ?thesis using getHWID_fields(2) [OF no_hwid(2)] by auto
next
  case (thrown hw this1 msg)
  with assms show ?thesis using getHWID_fields(2) [OF thrown(2)] by auto
next
  case (returned hw this1 response body)
  obtain r t where p: "process_result env this1 body = (r, t)"
    by (cases "process_result env this1 body")
  from returned assms p have "outcome = Inr r" and "this' = t" by simp_all
  then show ?thesis
    using process_result_cache [OF p] getHWID_fields(2) [OF returned(2)] by auto
qed

text \<open>
  Claim C4. A call of \<open>verify\<close> that throws, or that returns a result with
  \<open>success = false\<close>, leaves the value of \<open>getLastVerification()\<close> as it was; a call that
  returns a result with \<open>success = true\<close> stores this result. \<open>verifyOrThrow\<close> leaves the
  instance that its call of \<open>verify\<close> leaves, and \<open>generateHWID\<close>, \<open>getHWID\<close> and
  \<open>setHWID\<close> do not write the cached value.
\<close>

theorem cache_written_by_successful_verify_only:
  "(verify env this key = (Inl err, this', sent) \<longrightarrow>
      getLastVerification this' = getLastVerification this)
   \<and> (verify env this key = (Inr result, this', sent) \<and> \<not> success result \<longrightarrow>
      getLastVerification this' = getLastVerification this)
   \<and> (verify env this key = (Inr result, this', sent) \<and> success result \<longrightarrow>
      getLastVerification this' = Some result)
   \<and> fst (snd (verifyOrThrow env this key)) = fst (snd (verify env this key))
   \<and> getLastVerification (snd (generateHWID env this)) = getLastVerification this
   \<and> getLastVerification (snd (getHWID env this)) = getLastVerification this
   \<and> (setHWID x this = Inr this' \<longrightarrow> getLastVerification this' = getLastVerification this)"
proof -
  have "getLastVerification (this\<lparr>priv_hwid := h\<rparr>) = getLastVerification this" for h
    by (simp add: getLastVerification_def)
  then have gen: "getLastVerification (snd (generateHWID env this)) = getLastVerification this"
    using generateHWID_instance [of env this] by metis
  have get: "getLastVerification (snd (getHWID env this)) = getLastVerification this"
    using getHWID_fields(2) [of env this] by (simp add: getLastVerification_def prod_eq_iff)
  have set: "getLastVerification this' = getLastVerification this" if "setHWID x this = Inr this'"
    using that by (auto simp: setHWID_def getLastVerification_def split: if_splits)
  show ?thesis
    using verify_cache [of env this key "Inl err" this' sent]
      verify_cache [of env this key "Inr result" this' sent] gen get set
    by (auto simp: getLastVerification_def verifyOrThrow_instance)
qed

lemma example_hwid_nonempty: "example_hwid \<noteq> []"
  by (simp add: example_hwid_def tag_hash_nonempty)

lemma cached_getHWID: "getHWID (example_env r) cached_auth = (Inr example_hwid, cached_auth)"
  using example_hwid_nonempty
  by (simp add: getHWID_auto generateHWID_cached cached_auth_def example_auth_def truthy_def)

lemma cached_build_request:
  "build_request (example_env r) cached_auth ''ABC'' example_hwid example_nonce ''1700000000000''
     = example_request"
  by (simp add: build_request_def example_request_def example_env_fields example_auth_def
      cached_auth_def Let_def)

lemma cached_verify_expired:
  "verify (example_env (answer ''KEY_EXPIRED'' None)) cached_auth ''ABC'' =
     (Inr expired_result, cached_auth, [example_request])"
  by (simp add: verify_def verify_try_def cached_getHWID example_env_fields example_nonce_hex
      example_time cached_build_request Let_def answer_def check_signature_def truthy_def
      process_result_def or_else_def or_null_def expired_result_def)

lemma example_verify_wrong_secret:
  "verify (example_env (answer ''KEY_VALID''
              (Some (tag_hash (example_nonce @ secret_a @ ''KEY_VALID''))))) this ''ABC'' =
     (Inl ''nexveil: Server signature verification failed - response may be tampered'',
      this1, [example_request])"
  if "getHWID (example_env (answer ''KEY_VALID''
              (Some (tag_hash (example_nonce @ secret_a @ ''KEY_VALID''))))) this
        = (Inr example_hwid, this1)"
    and "build_request (example_env (answer ''KEY_VALID''
              (Some (tag_hash (example_nonce @ secret_a @ ''KEY_VALID''))))) this1 ''ABC''
              example_hwid example_nonce ''1700000000000'' = example_request"
    and "secret3 this1 = secret_c"
proof -
  have "secret_a \<noteq> secret_c"
    by (simp add: secret_a_def secret_c_def)
  moreover have "includes_str
      ''nexveil: Server signature verification failed - response may be tampered'' ''nexveil:''"
    using includes_nexveil [of "'' Server signature verification failed - response may be tampered''"]
    by simp
  ultimately show ?thesis
    using that
    by (simp add: verify_def verify_try_def example_env_fields example_nonce_hex example_time
        Let_def answer_def check_signature_def truthy_def tag_hash_def to_str_def)
qed

theorem cache_written_by_successful_verify_only_witness:
  "verify (example_env (answer ''KEY_VALID'' (Some []))) example_auth ''ABC'' =
     (Inr (valid_result None),
      example_auth\<lparr>priv_hwid := Some example_hwid,
                    priv_lastVerification := Some (valid_result None)\<rparr>,
      [example_request])
   \<and> getLastVerification (example_auth\<lparr>priv_hwid := Some example_hwid,
                    priv_lastVerification := Some (valid_result None)\<rparr>) = Some (valid_result None)
   \<and> verify (example_env (answer ''KEY_EXPIRED'' None)) cached_auth ''ABC'' =
     (Inr expired_result, cached_auth, [example_request])
   \<and> verify (example_env (answer ''KEY_VALID''
              (Some (tag_hash (example_nonce @ secret_a @ ''KEY_VALID''))))) cached_auth ''ABC'' =
     (Inl ''nexveil: Server signature verification failed - response may be tampered'',
      cached_auth, [example_request])
   \<and> getLastVerification cached_auth = Some (valid_result None)"
proof -
  have ok: "success (valid_result None)" and bad: "\<not> success expired_result"
    by (simp_all add: valid_result_def expired_result_def)
  have rejected: "verify (example_env (answer ''KEY_VALID''
              (Some (tag_hash (example_nonce @ secret_a @ ''KEY_VALID''))))) cached_auth ''ABC'' =
     (Inl ''nexveil: Server signature verification failed - response may be tampered'',
      cached_auth, [example_request])"
    by (rule example_verify_wrong_secret [OF cached_getHWID cached_build_request])
       (simp add: cached_auth_def example_auth_def)
  have 0: "getLastVerification cached_auth = getLastVerification cached_auth"
    using cache_written_by_successful_verify_only
      [where env = "example_env (answer ''KEY_VALID''
              (Some (tag_hash (example_nonce @ secret_a @ ''KEY_VALID''))))"
        and this = cached_auth and key = "''ABC''" and this' = cached_auth
        and err = "''nexveil: Server signature verification failed - response may be tampered''"
        and sent = "[example_request]"]
      rejected
    by simp
  have 1: "getLastVerification (example_auth\<lparr>priv_hwid := Some example_hwid,
                    priv_lastVerification := Some (valid_result None)\<rparr>) = Some (valid_result None)"
    using cache_written_by_successful_verify_only
      [where env = "example_env (answer ''KEY_VALID'' (Some []))" and this = example_auth
        and key = "''ABC''" and result = "valid_result None"
        and this' = "example_auth\<lparr>priv_hwid := Some example_hwid,
                    priv_lastVerification := Some (valid_result None)\<rparr>"
        and sent = "[example_request]"]
      example_verify_unsigned ok
    by simp
  have 2: "getLastVerification cached_auth = getLastVerification cached_auth"
    using cache_written_by_successful_verify_only
      [where env = "example_env (answer ''KEY_EXPIRED'' None)" and this = cached_auth
        and key = "''ABC''" and result = expired_result and this' = cached_auth
        and sent = "[example_request]"]
      cached_verify_expired bad
    by simp
  have 3: "getLastVerification cached_auth = Some (valid_result None)"
    by (simp add: getLastVerification_def cached_auth_def)
  show ?thesis
    using 0 1 2 3 example_verify_unsigned cached_verify_expired rejected by simp
qed

text \<open>
  Claim C8. \<open>verifyOrThrow(key)\<close> runs \<open>verify(key)\<close>. When \<open>verify\<close> returns a result
  with \<open>success = false\<close>, it throws the error \<open>nexveil: <code> - <message>\<close> made of the
  code and the message of that result; when \<open>verify\<close> returns a successful result, it
  returns the same result; an error of \<open>verify\<close> is passed on. So a result returned by
  \<open>verifyOrThrow\<close> is a successful result of \<open>verify\<close>.
\<close>

theorem verifyOrThrow_rejects_failure:
  "(verify env this key = (Inr result, this', sent) \<and> \<not> success result \<longrightarrow>
      verifyOrThrow env this key =
        (Inl (''nexveil: '' @ code result @ '' - '' @ message result), this', sent))
   \<and> (verify env this key = (Inr result, this', sent) \<and> success result \<longrightarrow>
      verifyOrThrow env this key = (Inr result, this', sent))
   \<and> (verify env this key = (Inl err, this', sent) \<longrightarrow>
      verifyOrThrow env this key = (Inl err, this', sent))
   \<and> (verifyOrThrow env this key = (Inr result, this', sent) \<longrightarrow>
      success result \<and> verify env this key = (Inr result, this', sent))"
  by (auto simp: verifyOrThrow_def split: prod.splits sum.splits if_splits)

theorem verifyOrThrow_rejects_failure_witness:
  "verifyOrThrow (example_env (answer ''KEY_EXPIRED'' None)) cached_auth ''ABC'' =
     (Inl ''nexveil: KEY_EXPIRED - Success'', cached_auth, [example_request])
   \<and> verifyOrThrow (example_env (answer ''KEY_VALID'' (Some []))) example_auth ''ABC'' =
     (Inr (valid_result None),
      example_auth\<lparr>priv_hwid := Some example_hwid,
                    priv_lastVerification := Some (valid_result None)\<rparr>,
      [example_request])"
proof -
  have ok: "success (valid_result None)" and bad: "\<not> success expired_result"
    and strs: "code expired_result = ''KEY_EXPIRED''" "message expired_result = ''Success''"
    by (simp_all add: valid_result_def expired_result_def)
  have 1: "verifyOrThrow (example_env (answer ''KEY_EXPIRED'' None)) cached_auth ''ABC'' =
     (Inl ''nexveil: KEY_EXPIRED - Success'', cached_auth, [example_request])"
    using verifyOrThrow_rejects_failure
      [where env = "example_env (answer ''KEY_EXPIRED'' None)" and this = cached_auth
        and key = "''ABC''" and result = expired_result and this' = cached_auth
        and sent = "[example_request]"]
      cached_verify_expired bad strs
    by simp
  have 2: "verifyOrThrow (example_env (answer ''KEY_VALID'' (Some []))) example_auth ''ABC'' =
     (Inr (valid_result None),
      example_auth\<lparr>priv_hwid := Some example_hwid,
                    priv_lastVerification := Some (valid_result None)\<rparr>,
      [example_request])"
    using verifyOrThrow_rejects_failure
      [where env = "example_env (answer ''KEY_VALID'' (Some []))" and this = example_auth
        and key = "''ABC''" and result = "valid_result None"
        and this' = "example_auth\<lparr>priv_hwid := Some example_hwid,
                    priv_lastVerification := Some (valid_result None)\<rparr>"
        and sent = "[example_request]"]
      example_verify_unsigned ok
    by simp
  show ?thesis using 1 2 by simp
qed

text \<open>
  Claim C10. With no cached result, \<open>isAuthenticated()\<close> returns \<open>null\<close>, the cached value
  itself, and not the boolean \<open>false\<close>: this is so on a new instance and after
  \<open>clearCache()\<close>. With a cached result it returns the flag \<open>success\<close> of that result.
\<close>

theorem isAuthenticated_null_without_cache:
  "(getLastVerification this = None \<longrightarrow>
      isAuthenticated this = JNull \<and> isAuthenticated this \<noteq> JBool False)
   \<and> (NexveilAuth cfg = Inr built \<longrightarrow> isAuthenticated built = JNull)
   \<and> isAuthenticated (clearCache this) = JNull
   \<and> (getLastVerification this = Some result \<longrightarrow> isAuthenticated this = JBool (success result))"
  by (auto simp: isAuthenticated_def getLastVerification_def clearCache_def NexveilAuth_def
      split: sum.splits option.splits)

theorem isAuthenticated_null_without_cache_witness:
  "isAuthenticated example_auth = JNull
   \<and> isAuthenticated (clearCache cached_auth) = JNull
   \<and> isAuthenticated cached_auth = JBool True"
proof -
  have "getLastVerification example_auth = None"
    and "getLastVerification cached_auth = Some (valid_result None)"
    and "success (valid_result None)"
    by (simp_all add: getLastVerification_def example_auth_def cached_auth_def valid_result_def)
  then show ?thesis
    using isAuthenticated_null_without_cache [where this = example_auth]
      isAuthenticated_null_without_cache [where this = cached_auth
        and result = "valid_result None"]
    by simp
qed


end
